theory Spec2Isabelle
  imports Main
begin

section \<open>JavaScript values\<close>

text \<open>
  The launcher is JavaScript: the values that flow through an argument list or an option
  are strings, numbers, objects or \<open>undefined\<close>.  Only what the handler inspects
  is kept: truthiness (the \<open>||\<close>, \<open>?:\<close> and \<open>if\<close> tests) and \<open>typeof\<close>.
\<close>

datatype jsval =
    JUndefined
  | JNull
  | JBool bool
  | JNum int
  | JStr string
  | JArr "jsval list"
  | JObj "(string \<times> jsval) list"

fun truthy :: "jsval \<Rightarrow> bool" where
  "truthy JUndefined = False"
| "truthy JNull = False"
| "truthy (JBool b) = b"
| "truthy (JNum n) = (n \<noteq> 0)"
| "truthy (JStr s) = (s \<noteq> [])"
| "truthy (JArr xs) = True"
| "truthy (JObj kvs) = True"

fun typeof :: "jsval \<Rightarrow> string" where
  "typeof JUndefined = ''undefined''"
| "typeof JNull = ''object''"
| "typeof (JBool b) = ''boolean''"
| "typeof (JNum n) = ''number''"
| "typeof (JStr s) = ''string''"
| "typeof (JArr xs) = ''object''"
| "typeof (JObj kvs) = ''object''"

text \<open>\<open>a || b\<close>: the left operand when it is truthy, the right one otherwise.\<close>

definition js_or :: "jsval \<Rightarrow> jsval \<Rightarrow> jsval" where
  "js_or a b = (if truthy a then a else b)"

text \<open>
  What the handler's code can throw: a \<open>TypeError\<close> when it dereferences
  \<open>undefined\<close>, the rejection of a file read that is not caught, and the error of
  \<open>new Zip(file)\<close> for a file that is missing or is no archive.
\<close>

datatype error = TypeError | ReadError | ZipError

subsection \<open>Strings\<close>

text \<open>\<open>s.split(c)\<close> for a one-character separator: never the empty array.\<close>

fun js_split :: "char \<Rightarrow> string \<Rightarrow> string list" where
  "js_split c [] = [[]]"
| "js_split c (x # xs) =
     (if x = c then [] # js_split c xs
      else (case js_split c xs of
              [] \<Rightarrow> [[x]]
            | w # ws \<Rightarrow> (x # w) # ws))"

text \<open>\<open>xs.join(sep)\<close> on an array of strings.\<close>

fun js_join :: "string \<Rightarrow> string list \<Rightarrow> string" where
  "js_join sep [] = []"
| "js_join sep [x] = x"
| "js_join sep (x # y # ys) = x @ sep @ js_join sep (y # ys)"

text \<open>\<open>xs[i]\<close>: \<open>undefined\<close> out of range.\<close>

definition nth_opt :: "'a list \<Rightarrow> nat \<Rightarrow> 'a option" where
  "nth_opt xs i = (if i < length xs then Some (xs ! i) else None)"

text \<open>A template literal prints \<open>undefined\<close> for a missing part.\<close>

definition tpl :: "string option \<Rightarrow> string" where
  "tpl s = (case s of None \<Rightarrow> ''undefined'' | Some t \<Rightarrow> t)"

text \<open>\<open>s.replace(/\./g, '/')\<close>.\<close>

definition dots_to_slashes :: "string \<Rightarrow> string" where
  "dots_to_slashes s = map (\<lambda>c. if c = CHR ''.'' then CHR ''/'' else c) s"

section \<open>The data model\<close>

record os_clause =
  os_name :: "string option"

record rule =
  rule_action :: string
  rule_os :: "os_clause option"

record artifact =
  art_path :: "string option"
  art_url :: string
  art_sha1 :: string

record downloads =
  dl_artifact :: "artifact option"
  dl_classifiers :: "(string \<times> artifact) list option"

record library =
  lib_name :: string
  lib_url :: "string option"
  lib_rules :: "rule list option"
  lib_downloads :: "downloads option"
  lib_serverreq :: bool
  lib_clientreq :: bool

text \<open>
  A version descriptor.  Its \<open>arguments.game\<close> is an array object: the descriptor holds
  the array's address in the store, since \<open>getLaunchOptions\<close> updates the array in place.
\<close>

type_synonym addr = nat

record descriptor =
  ver_id :: string
  mainClass :: string
  assets :: "string option"
  assetIndex_id :: string
  libraries :: "library list"
  mavenFiles :: "library list option"
  minecraftArguments :: "string option"
  arguments_game :: "addr option"

record authorization =
  access_token :: jsval
  auth_name :: jsval
  auth_uuid :: jsval
  user_properties :: jsval

record window_opt =
  fullscreen :: jsval
  win_width :: jsval
  win_height :: jsval

record server_opt =
  server_host :: jsval
  server_port :: jsval

record proxy_opt =
  proxy_host :: jsval
  proxy_port :: jsval
  proxy_username :: jsval
  proxy_password :: jsval

record overrides =
  ov_minArgs :: jsval
  ov_assetRoot :: "string option"
  ov_natives :: "string option"
  ov_libraryRoot :: "string option"
  ov_versionJson :: "string option"
  ov_classes :: "string list option"
  ov_minecraftJar :: "string option"
  ov_url_meta :: string
  ov_url_mavenForge :: string
  ov_url_defaultRepoForge :: string
  ov_url_fallbackMaven :: string

record options =
  opt_os :: "string option"
  opt_root :: string
  opt_directory :: string
  version_number :: string
  version_type :: jsval
  version_custom :: "string option"
  opt_forge :: "string option"
  javaPath :: "string option"
  forgeWrapper_jar :: string
  forgeWrapper_version :: string
  opt_authorization :: authorization
  opt_window :: "window_opt option"
  opt_server :: "server_opt option"
  opt_proxy :: "proxy_opt option"
  customLaunchArgs :: "jsval list option"
  opt_overrides :: overrides

text \<open>
  The handler object: \<open>this.options\<close>, \<open>this.version\<close>, and the host's
  \<open>process.platform\<close>.
\<close>

record handler =
  h_options :: options
  h_version :: descriptor
  h_platform :: string

text \<open>An optional string is truthy when it is present and not empty.\<close>

definition str_truthy :: "string option \<Rightarrow> bool" where
  "str_truthy s = (case s of None \<Rightarrow> False | Some t \<Rightarrow> t \<noteq> [])"

section \<open>Platform probe\<close>

definition getOS :: "handler \<Rightarrow> string" where
  "getOS h =
     (if str_truthy (opt_os (h_options h)) then tpl (opt_os (h_options h))
      else if h_platform h = ''win32'' then ''windows''
      else if h_platform h = ''darwin'' then ''osx''
      else ''linux'')"

definition isLegacy :: "handler \<Rightarrow> bool" where
  "isLegacy h =
     (assets (h_version h) = Some ''legacy'' \<or> assets (h_version h) = Some ''pre-1.6'')"

section \<open>Rule evaluator\<close>

text \<open>
  \<open>parseRule\<close> answers whether the library is to be left out: both callers drop the
  library when the answer is truthy (\<open>if (this.parseRule(lib)) return\<close> in
  \<open>getNatives\<close>, \<open>!this.parseRule(lib)\<close> in \<open>getClasses\<close>).  The branch for one
  rule has no \<open>else\<close>: a single rule of another shape falls off the end of the
  function, which returns \<open>undefined\<close>; and that branch does not look at \<open>os.name\<close>,
  which the branch for two rules does.  An empty rule array, and a second rule
  \<open>disallow\<close> with no \<open>os\<close>, dereference \<open>undefined\<close>.
\<close>

definition parseRule :: "handler \<Rightarrow> library \<Rightarrow> error + jsval" where
  "parseRule h lib =
     (case lib_rules lib of
        None \<Rightarrow> Inr (JBool False)
      | Some rs \<Rightarrow>
          if length rs > 1 then
            (if rule_action (rs ! 0) = ''allow'' \<and> rule_action (rs ! 1) = ''disallow'' then
               (case rule_os (rs ! 1) of
                  None \<Rightarrow> Inl TypeError
                | Some c \<Rightarrow>
                    if os_name c = Some ''osx'' then Inr (JBool (getOS h = ''osx''))
                    else Inr (JBool True))
             else Inr (JBool True))
          else
            (case rs of
               [] \<Rightarrow> Inl TypeError
             | r # _ \<Rightarrow>
                 if rule_action r = ''allow'' \<and> rule_os r \<noteq> None
                 then Inr (JBool (getOS h \<noteq> ''osx''))
                 else Inr JUndefined))"

text \<open>What the callers make of the answer: the library is kept when it is falsy.\<close>

definition included :: "handler \<Rightarrow> library \<Rightarrow> error + bool" where
  "included h lib = (case parseRule h lib of Inl e \<Rightarrow> Inl e | Inr v \<Rightarrow> Inr (\<not> truthy v))"

text \<open>
  The table of section 4.F as the specification words it, for comparison with
  \<open>included\<close>: no rules, include; one rule \<open>allow\<close> with an \<open>os\<close> clause, include
  off osx; two rules \<open>allow\<close> then \<open>disallow\<close> osx, include on osx; anything else,
  exclude.
\<close>

definition spec_included :: "string \<Rightarrow> library \<Rightarrow> bool" where
  "spec_included cur lib =
     (case lib_rules lib of
        None \<Rightarrow> True
      | Some [r] \<Rightarrow>
          if rule_action r = ''allow'' \<and> rule_os r \<noteq> None then cur \<noteq> ''osx'' else False
      | Some [r0, r1] \<Rightarrow>
          if rule_action r0 = ''allow'' \<and> rule_action r1 = ''disallow''
             \<and> rule_os r1 = Some \<lparr>os_name = Some ''osx''\<rparr>
          then cur = ''osx'' else False
      | Some _ \<Rightarrow> False)"

subsection \<open>Sample inputs\<close>

definition no_overrides :: overrides where
  "no_overrides =
     \<lparr>ov_minArgs = JUndefined, ov_assetRoot = None, ov_natives = None,
      ov_libraryRoot = None, ov_versionJson = None, ov_classes = None,
      ov_minecraftJar = None,
      ov_url_meta = ''https://launchermeta.mojang.com'',
      ov_url_mavenForge = ''http://files.minecraftforge.net/maven/'',
      ov_url_defaultRepoForge = ''https://libraries.minecraft.net/'',
      ov_url_fallbackMaven = ''https://search.maven.org/remotecontent?filepath=''\<rparr>"

definition steve :: authorization where
  "steve = \<lparr>access_token = JStr ''T'', auth_name = JStr ''Steve'', auth_uuid = JStr ''U'',
            user_properties = JStr ''{}''\<rparr>"

definition sample_options :: options where
  "sample_options =
     \<lparr>opt_os = None, opt_root = ''/tmp/mc'', opt_directory = ''/tmp/mc/versions/1.19.2'',
      version_number = ''1.19.2'', version_type = JStr ''release'', version_custom = None,
      opt_forge = None, javaPath = None, forgeWrapper_jar = ''/mclc/fw.jar'',
      forgeWrapper_version = ''1.4.1-mclc'', opt_authorization = steve,
      opt_window = None, opt_server = None, opt_proxy = None, customLaunchArgs = None,
      opt_overrides = no_overrides\<rparr>"

definition sample_version :: descriptor where
  "sample_version =
     \<lparr>ver_id = ''1.19.2'', mainClass = ''net.minecraft.client.main.Main'',
      assets = Some ''1.19'', assetIndex_id = ''1.19'', libraries = [], mavenFiles = None,
      minecraftArguments = None, arguments_game = Some 0\<rparr>"

definition on_platform :: "string \<Rightarrow> handler" where
  "on_platform p = \<lparr>h_options = sample_options, h_version = sample_version, h_platform = p\<rparr>"

definition allow_rule :: rule where
  "allow_rule = \<lparr>rule_action = ''allow'', rule_os = None\<rparr>"

definition allow_osx_rule :: rule where
  "allow_osx_rule = \<lparr>rule_action = ''allow'', rule_os = Some \<lparr>os_name = Some ''osx''\<rparr>\<rparr>"

definition disallow_osx_rule :: rule where
  "disallow_osx_rule = \<lparr>rule_action = ''disallow'', rule_os = Some \<lparr>os_name = Some ''osx''\<rparr>\<rparr>"

definition disallow_rule :: rule where
  "disallow_rule = \<lparr>rule_action = ''disallow'', rule_os = None\<rparr>"

definition lib_with_rules :: "rule list option \<Rightarrow> library" where
  "lib_with_rules rs =
     \<lparr>lib_name = ''org.lwjgl.lwjgl:lwjgl:2.9.4'', lib_url = None, lib_rules = rs,
      lib_downloads = None, lib_serverreq = False, lib_clientreq = False\<rparr>"

text \<open>
  What \<open>getForgeDependenciesLegacy\<close> returns: \<open>false\<close> for an installer jar,
  \<open>null\<close> when \<open>version.json\<close> cannot be extracted, or the Forge library paths with
  the Forge descriptor.
\<close>

record forge_deps =
  paths :: "string list"
  forge :: descriptor

datatype forge_result = ForgeFalse | ForgeNull | ForgeDeps forge_deps

section \<open>The world outside the handler\<close>

text \<open>
  What the handler does to the file system, the network and other processes is kept
  as a trace of effects, in program order; the events it emits to its caller are not
  part of the trace.  The calls made under one \<open>Promise.all\<close> run interleaved; the
  trace lists them element by element, in the order of the array.
\<close>

datatype effect =
    Mkdir string
  | ReadFile string
  | Download string string string
  | CheckSum string string
  | Extract string string
  | ExtractEntry string string string
  | Rm string
  | HttpGet string
  | Exec string

text \<open>
  What the world answers: which paths exist, what a directory lists, whether a file
  has the hash asked for, what a JSON file or a URL parses to (\<open>None\<close>: the read or the
  request fails), whether a download resolves to a truthy value, whether a file can be
  opened as a zip archive, and what the archive holds.
\<close>

record world =
  w_exists :: "string \<Rightarrow> bool"
  w_readdir :: "string \<Rightarrow> string list"
  w_checkSum :: "string \<Rightarrow> string \<Rightarrow> bool"
  w_readJson :: "string \<Rightarrow> descriptor option"
  w_manifest :: "string \<Rightarrow> (string \<times> string) list option"
  w_descriptor :: "string \<Rightarrow> descriptor option"
  w_download :: "string \<Rightarrow> bool"
  w_zipReadable :: "string \<Rightarrow> bool"
  w_zipEntry :: "string \<Rightarrow> string \<Rightarrow> bool"

text \<open>
  The value of \<open>custom\<close> in \<open>launch\<close>: \<open>null\<close>, a descriptor, or a function that has
  not been called, kept with the effects its body would have if it were.
\<close>

datatype custom = CustomNull | CustomDescriptor descriptor | AsyncFn "effect list"

section \<open>Node's path module\<close>

text \<open>
  \<open>path.join\<close>, \<open>path.resolve\<close> and \<open>path.sep\<close> belong to Node, not to the
  launcher: they are parameters of the model.
\<close>

record node =
  path_join :: "string list \<Rightarrow> string"
  path_resolve :: "string \<Rightarrow> string"
  path_sep :: string

section \<open>The store of argument arrays\<close>

text \<open>
  Arrays are objects: \<open>args = type.arguments.game\<close> makes \<open>args\<close> another name of
  the descriptor's array, \<open>splice\<close>, \<open>push\<close> and \<open>args[i] = v\<close> update that array,
  and \<open>concat\<close> and \<open>split\<close> build a new one.
\<close>

record heap =
  cells :: "addr \<Rightarrow> jsval list"
  next_free :: addr

definition alloc :: "heap \<Rightarrow> jsval list \<Rightarrow> heap \<times> addr" where
  "alloc hp xs = (hp\<lparr>cells := (cells hp)(next_free hp := xs), next_free := Suc (next_free hp)\<rparr>,
                  next_free hp)"

definition store :: "heap \<Rightarrow> addr \<Rightarrow> jsval list \<Rightarrow> heap" where
  "store hp a xs = hp\<lparr>cells := (cells hp)(a := xs)\<rparr>"

text \<open>\<open>xs.push(...ys)\<close> on the array at \<open>a\<close>.\<close>

definition push :: "heap \<Rightarrow> addr \<Rightarrow> jsval list \<Rightarrow> heap" where
  "push hp a ys = store hp a (cells hp a @ ys)"

text \<open>\<open>xs.splice(i, n)\<close>: removes \<open>n\<close> elements from position \<open>i\<close>, or as many as there are.\<close>

definition splice :: "nat \<Rightarrow> nat \<Rightarrow> 'a list \<Rightarrow> 'a list" where
  "splice i n xs = take i xs @ drop (i + n) xs"

section \<open>Argument synthesis\<close>

text \<open>
  \<open>d.minecraftArguments ? d.minecraftArguments.split(' ') : d.arguments.game\<close>.
  A descriptor has one or the other (section 3); with neither, \<open>d.arguments\<close> is
  \<open>undefined\<close> and the dereference throws.
\<close>

definition gameArray :: "heap \<Rightarrow> descriptor \<Rightarrow> error + heap \<times> addr" where
  "gameArray hp d =
     (if str_truthy (minecraftArguments d)
      then Inr (alloc hp (map JStr (js_split CHR '' '' (tpl (minecraftArguments d)))))
      else (case arguments_game d of
              None \<Rightarrow> Inl TypeError
            | Some a \<Rightarrow> Inr (hp, a)))"

text \<open>
  \<open>this.options.overrides.minArgs || this.isLegacy() ? 5 : 11\<close>: the conditional binds
  weaker than \<open>||\<close>, so the test is \<open>minArgs || isLegacy()\<close>.
\<close>

definition minArgs :: "handler \<Rightarrow> int" where
  "minArgs h =
     (if truthy (js_or (ov_minArgs (opt_overrides (h_options h))) (JBool (isLegacy h)))
      then 5 else 11)"

text \<open>
  The threshold as the specification words it: the override when it is set, else 5 for
  legacy versions and 11 for modern ones.
\<close>

definition spec_minArgs :: "handler \<Rightarrow> int" where
  "spec_minArgs h =
     (case ov_minArgs (opt_overrides (h_options h)) of
        JNum n \<Rightarrow> n
      | _ \<Rightarrow> if isLegacy h then 5 else 11)"

definition assetPath :: "node \<Rightarrow> handler \<Rightarrow> string" where
  "assetPath nd h =
     (let assetRoot = path_resolve nd
            (if str_truthy (ov_assetRoot (opt_overrides (h_options h)))
             then tpl (ov_assetRoot (opt_overrides (h_options h)))
             else path_join nd [opt_root (h_options h), ''assets''])
      in if isLegacy h then path_join nd [assetRoot, ''legacy''] else path_join nd [assetRoot])"

definition fields :: "node \<Rightarrow> handler \<Rightarrow> (string \<times> jsval) list" where
  "fields nd h =
     [(''${auth_access_token}'', access_token (opt_authorization (h_options h))),
      (''${auth_session}'', access_token (opt_authorization (h_options h))),
      (''${auth_player_name}'', auth_name (opt_authorization (h_options h))),
      (''${auth_uuid}'', auth_uuid (opt_authorization (h_options h))),
      (''${user_properties}'', user_properties (opt_authorization (h_options h))),
      (''${user_type}'', JStr ''mojang''),
      (''${version_name}'', JStr (version_number (h_options h))),
      (''${assets_index_name}'', JStr (assetIndex_id (h_version h))),
      (''${game_directory}'', JStr (opt_root (h_options h))),
      (''${assets_root}'', JStr (assetPath nd h)),
      (''${game_assets}'', JStr (assetPath nd h)),
      (''${version_type}'', version_type (h_options h))]"

text \<open>The recognized placeholders, as the specification lists them.\<close>

definition placeholders :: "string list" where
  "placeholders =
     [''${auth_access_token}'', ''${auth_session}'', ''${auth_player_name}'', ''${auth_uuid}'',
      ''${user_properties}'', ''${user_type}'', ''${version_name}'', ''${version_type}'',
      ''${assets_index_name}'', ''${game_directory}'', ''${assets_root}'', ''${game_assets}'']"

definition is_placeholder :: "jsval \<Rightarrow> bool" where
  "is_placeholder t = (case t of JStr s \<Rightarrow> s \<in> set placeholders | _ \<Rightarrow> False)"

text \<open>
  One round of the loop body at \<open>index\<close>: a structured entry is spliced out with its
  successor; then whatever stands at \<open>index\<close> now is replaced when it is a key of the
  table.  \<open>Object.keys(fields).includes(undefined)\<close> is false past the end.
\<close>

definition loopBody :: "(string \<times> jsval) list \<Rightarrow> nat \<Rightarrow> jsval list \<Rightarrow> jsval list" where
  "loopBody fs index args =
     (let args1 = (if typeof (args ! index) = ''object'' then splice index 2 args else args)
      in case nth_opt args1 index of
           Some (JStr s) \<Rightarrow>
             (case map_of fs s of
                Some v \<Rightarrow> args1[index := v]
              | None \<Rightarrow> args1)
         | _ \<Rightarrow> args1)"

lemma length_loopBody: "length (loopBody fs index args) \<le> length args"
  by (auto simp: loopBody_def splice_def Let_def split: option.splits jsval.splits)

text \<open>\<open>for (let index = 0; index < args.length; index++)\<close>, the length read at every round.\<close>

function substLoop :: "(string \<times> jsval) list \<Rightarrow> nat \<Rightarrow> jsval list \<Rightarrow> jsval list" where
  "substLoop fs index args =
     (if index < length args then substLoop fs (Suc index) (loopBody fs index args) else args)"
  by pat_completeness auto
termination
proof (relation "measure (\<lambda>(fs, index, args). length args - index)")
  show "wf (measure (\<lambda>(fs, index, args). length args - index))"
    by simp
next
  fix fs :: "(string \<times> jsval) list" and index :: nat and args :: "jsval list"
  assume "index < length args"
  moreover have "length (loopBody fs index args) \<le> length args"
    by (rule length_loopBody)
  ultimately show "((fs, Suc index, loopBody fs index args), (fs, index, args))
      \<in> measure (\<lambda>(fs, index, args). length args - index)"
    by simp
qed

declare substLoop.simps [simp del]

definition window_tokens :: "options \<Rightarrow> jsval list" where
  "window_tokens opts =
     (case opt_window opts of
        None \<Rightarrow> []
      | Some w \<Rightarrow>
          if truthy (fullscreen w) then [JStr ''--fullscreen'']
          else [JStr ''--width'', win_width w, JStr ''--height'', win_height w])"

definition server_tokens :: "options \<Rightarrow> jsval list" where
  "server_tokens opts =
     (case opt_server opts of
        None \<Rightarrow> []
      | Some s \<Rightarrow>
          [JStr ''--server'', server_host s, JStr ''--port'', js_or (server_port s) (JStr ''25565'')])"

definition proxy_tokens :: "options \<Rightarrow> jsval list" where
  "proxy_tokens opts =
     (case opt_proxy opts of
        None \<Rightarrow> []
      | Some p \<Rightarrow>
          [JStr ''--proxyHost'', proxy_host p, JStr ''--proxyPort'',
           js_or (proxy_port p) (JStr ''8080''), JStr ''--proxyUser'', proxy_username p,
           JStr ''--proxyPass'', proxy_password p])"

text \<open>
  \<open>if (args.length < minArgs) args = args.concat(...)\<close>: the vanilla descriptor's tokens
  go into a new array; otherwise \<open>args\<close> stays the array it was.
\<close>

definition withVanilla :: "handler \<Rightarrow> heap \<Rightarrow> addr \<Rightarrow> error + heap \<times> addr" where
  "withVanilla h hp a =
     (if int (length (cells hp a)) < minArgs h then
        (case gameArray hp (h_version h) of
           Inl e \<Rightarrow> Inl e
         | Inr (hp', b) \<Rightarrow> Inr (alloc hp' (cells hp' a @ cells hp' b)))
      else Inr (hp, a))"

text \<open>
  The first lines of \<open>getLaunchOptions(modification)\<close>: \<open>type\<close> is the modification
  descriptor, or the vanilla one when there is none, and \<open>args\<close> its game tokens,
  followed by the vanilla descriptor's when they are fewer than \<open>minArgs\<close>.
\<close>

definition selectArgs :: "handler \<Rightarrow> heap \<Rightarrow> descriptor option \<Rightarrow> error + heap \<times> addr" where
  "selectArgs h hp modification =
     (let type = (case modification of Some m \<Rightarrow> m | None \<Rightarrow> h_version h) in
      case gameArray hp type of
        Inl e \<Rightarrow> Inl e
      | Inr (hp1, a1) \<Rightarrow> withVanilla h hp1 a1)"

text \<open>The tokens that follow the descriptor's: \<open>push\<close>ed or \<open>concat\<close>enated, never substituted.\<close>

definition custom_tokens :: "options \<Rightarrow> jsval list" where
  "custom_tokens opts = (case customLaunchArgs opts of None \<Rightarrow> [] | Some extra \<Rightarrow> extra)"

definition pushed_tokens :: "options \<Rightarrow> jsval list" where
  "pushed_tokens opts = window_tokens opts @ server_tokens opts @ proxy_tokens opts"

text \<open>
  \<open>getLaunchOptions(modification)\<close>.  The result is the store after the call and the
  address of the array returned.  The window, server and proxy tokens are pushed onto
  the array at hand; \<open>customLaunchArgs\<close> are joined by \<open>concat\<close>, into a new array.
\<close>

definition getLaunchOptions ::
    "node \<Rightarrow> handler \<Rightarrow> heap \<Rightarrow> descriptor option \<Rightarrow> error + heap \<times> addr" where
  "getLaunchOptions nd h hp modification =
     (case selectArgs h hp modification of
        Inl e \<Rightarrow> Inl e
      | Inr (hp2, a) \<Rightarrow>
          (let hp3 = store hp2 a (substLoop (fields nd h) 0 (cells hp2 a));
               hp4 = push hp3 a (window_tokens (h_options h));
               hp5 = push hp4 a (server_tokens (h_options h));
               hp6 = push hp5 a (proxy_tokens (h_options h))
           in case customLaunchArgs (h_options h) of
                None \<Rightarrow> Inr (hp6, a)
              | Some extra \<Rightarrow> Inr (alloc hp6 (cells hp6 a @ extra))))"

text \<open>The tokens returned, and the contents of the array at \<open>a\<close> after the call.\<close>

definition returned :: "error + heap \<times> addr \<Rightarrow> error + jsval list" where
  "returned r = (case r of Inl e \<Rightarrow> Inl e | Inr (hp, a) \<Rightarrow> Inr (cells hp a))"

definition array_after :: "addr \<Rightarrow> error + heap \<times> addr \<Rightarrow> error + jsval list" where
  "array_after a r = (case r of Inl e \<Rightarrow> Inl e | Inr (hp, b) \<Rightarrow> Inr (cells hp a))"

text \<open>
  What the loop leaves of a list, read off the code: the entry that moves into the place
  of a spliced pair is not tested for being structured, it stays.
\<close>

fun survivors :: "jsval list \<Rightarrow> jsval list" where
  "survivors [] = []"
| "survivors [x] = (if typeof x = ''object'' then [] else [x])"
| "survivors [x, y] = (if typeof x = ''object'' then [] else x # survivors [y])"
| "survivors (x # y # z # zs) =
     (if typeof x = ''object'' then z # survivors zs else x # survivors (y # z # zs))"

definition subst1 :: "(string \<times> jsval) list \<Rightarrow> jsval \<Rightarrow> jsval" where
  "subst1 fs t =
     (case t of
        JStr s \<Rightarrow> (case map_of fs s of Some v \<Rightarrow> v | None \<Rightarrow> t)
      | _ \<Rightarrow> t)"

subsection \<open>Sample descriptors and stores\<close>

text \<open>
  Node's path module on a POSIX host.  \<open>normalize\<close> drops empty segments and \<open>.\<close>,
  and lets \<open>..\<close> take back the segment before it; \<open>join\<close> joins the segments that
  are not empty with \<open>/\<close> and normalizes; \<open>resolve\<close> makes the path absolute from
  the working directory and normalizes, with no slash at the end.
\<close>

fun normalizeSegments :: "bool \<Rightarrow> string list \<Rightarrow> string list \<Rightarrow> string list" where
  "normalizeSegments allowAboveRoot res [] = rev res"
| "normalizeSegments allowAboveRoot res (seg # segs) =
     (if seg = [] \<or> seg = ''.'' then normalizeSegments allowAboveRoot res segs
      else if seg = ''..'' then
        (case res of
           [] \<Rightarrow> normalizeSegments allowAboveRoot (if allowAboveRoot then [''..''] else []) segs
         | r # rs \<Rightarrow>
             if r = ''..'' then normalizeSegments allowAboveRoot (if allowAboveRoot then ''..'' # res else res) segs
             else normalizeSegments allowAboveRoot rs segs)
      else normalizeSegments allowAboveRoot (seg # res) segs)"

definition normalizeString :: "bool \<Rightarrow> string \<Rightarrow> string" where
  "normalizeString allowAboveRoot p = js_join ''/'' (normalizeSegments allowAboveRoot [] (js_split CHR ''/'' p))"

definition posix_normalize :: "string \<Rightarrow> string" where
  "posix_normalize p =
     (if p = [] then ''.''
      else
        (let isAbsolute = (hd p = CHR ''/'');
             trailingSeparator = (last p = CHR ''/'');
             q = normalizeString (\<not> isAbsolute) p
         in if q = [] then (if isAbsolute then ''/'' else if trailingSeparator then ''./'' else ''.'')
            else (if isAbsolute then ''/'' else []) @ q @ (if trailingSeparator then ''/'' else [])))"

definition posix_join :: "string list \<Rightarrow> string" where
  "posix_join segs =
     (case filter (\<lambda>seg. seg \<noteq> []) segs of
        [] \<Rightarrow> ''.''
      | seg # rest \<Rightarrow> posix_normalize (js_join ''/'' (seg # rest)))"

definition posix_resolve :: "string \<Rightarrow> string \<Rightarrow> string" where
  "posix_resolve cwd p =
     (let full = (if p = [] then cwd else if hd p = CHR ''/'' then p else cwd @ ''/'' @ p)
      in ''/'' @ normalizeString False full)"

definition posix_node :: node where
  "posix_node =
     \<lparr>path_join = posix_join, path_resolve = posix_resolve ''/home/steve'', path_sep = ''/''\<rparr>"

definition demo_arg :: jsval where
  "demo_arg =
     JObj [(''rules'', JArr [JObj [(''action'', JStr ''allow''),
                                   (''features'', JObj [(''is_demo_user'', JBool True)])]]),
           (''value'', JStr ''--demo'')]"

definition resolution_arg :: jsval where
  "resolution_arg =
     JObj [(''rules'', JArr [JObj [(''action'', JStr ''allow''),
                                   (''features'', JObj [(''has_custom_resolution'', JBool True)])]]),
           (''value'', JArr [JStr ''--width'', JStr ''${resolution_width}'',
                             JStr ''--height'', JStr ''${resolution_height}''])]"

definition quickplay_arg :: jsval where
  "quickplay_arg =
     JObj [(''rules'', JArr [JObj [(''action'', JStr ''allow''),
                                   (''features'', JObj [(''has_quick_plays_support'', JBool True)])]]),
           (''value'', JArr [JStr ''--quickPlayPath'', JStr ''${quickPlayPath}''])]"

definition vanilla_strings :: "jsval list" where
  "vanilla_strings =
     map JStr [''--username'', ''${auth_player_name}'', ''--version'', ''${version_name}'',
               ''--gameDir'', ''${game_directory}'', ''--assetsDir'', ''${assets_root}'',
               ''--assetIndex'', ''${assets_index_name}'', ''--uuid'', ''${auth_uuid}'',
               ''--accessToken'', ''${auth_access_token}'', ''--userType'', ''${user_type}'',
               ''--versionType'', ''${version_type}'']"

definition vanilla_substituted :: "jsval list" where
  "vanilla_substituted =
     map JStr [''--username'', ''Steve'', ''--version'', ''1.19.2'',
               ''--gameDir'', ''/tmp/mc'', ''--assetsDir'', ''/tmp/mc/assets'',
               ''--assetIndex'', ''1.19'', ''--uuid'', ''U'',
               ''--accessToken'', ''T'', ''--userType'', ''mojang'',
               ''--versionType'', ''release'']"

definition forge_game :: "jsval list" where
  "forge_game =
     map JStr [''--launchTarget'', ''fmlclient'', ''--fml.forgeVersion'', ''28.1.0'',
               ''--fml.mcVersion'', ''1.14.4'']"

definition short_game :: "jsval list" where
  "short_game = [JStr ''--username'', JStr ''${auth_player_name}'', demo_arg, JStr ''--demo'']"

text \<open>
  A store with four arrays: a vanilla \<open>arguments.game\<close> with two structured entries
  at its end, a Forge descriptor's six tokens, a four-token array, and a vanilla
  array with three structured entries.
\<close>

definition sample_heap :: heap where
  "sample_heap =
     \<lparr>cells = (\<lambda>a. if a = 0 then vanilla_strings @ [demo_arg, resolution_arg]
                      else if a = 1 then forge_game
                      else if a = 2 then short_game
                      else if a = 3 then vanilla_strings @ [demo_arg, resolution_arg, quickplay_arg]
                      else []),
      next_free = 4\<rparr>"

definition forge_descriptor :: descriptor where
  "forge_descriptor =
     \<lparr>ver_id = ''1.14.4-forge-28.1.0'', mainClass = ''cpw.mods.modlauncher.Launcher'',
      assets = None, assetIndex_id = [], libraries = [], mavenFiles = None,
      minecraftArguments = None, arguments_game = Some 1\<rparr>"

definition short_descriptor :: descriptor where
  "short_descriptor = forge_descriptor\<lparr>ver_id := ''custom'', arguments_game := Some 2\<rparr>"

definition quickplay_version :: descriptor where
  "quickplay_version = sample_version\<lparr>arguments_game := Some 3\<rparr>"

definition minArgs20_handler :: handler where
  "minArgs20_handler =
     \<lparr>h_options = sample_options\<lparr>opt_overrides := no_overrides\<lparr>ov_minArgs := JNum 20\<rparr>\<rparr>,
      h_version = sample_version, h_platform = ''linux''\<rparr>"

definition quickplay_handler :: handler where
  "quickplay_handler =
     \<lparr>h_options = sample_options, h_version = quickplay_version, h_platform = ''linux''\<rparr>"

definition custom_args_handler :: handler where
  "custom_args_handler =
     \<lparr>h_options = sample_options\<lparr>customLaunchArgs := Some [JStr ''--lang'', JStr ''${auth_uuid}'']\<rparr>,
      h_version = sample_version, h_platform = ''linux''\<rparr>"

definition placeholder_name_handler :: handler where
  "placeholder_name_handler =
     \<lparr>h_options = sample_options\<lparr>opt_authorization := steve\<lparr>auth_name := JStr ''${auth_uuid}''\<rparr>\<rparr>,
      h_version = sample_version, h_platform = ''linux''\<rparr>"

definition classes_override_handler :: handler where
  "classes_override_handler =
     \<lparr>h_options = sample_options
        \<lparr>opt_overrides := no_overrides\<lparr>ov_classes := Some [''/opt/a.jar'', ''/opt/a.jar'']\<rparr>\<rparr>,
      h_version = sample_version, h_platform = ''linux''\<rparr>"

definition window_handler :: handler where
  "window_handler =
     \<lparr>h_options = sample_options
        \<lparr>opt_window := Some \<lparr>fullscreen = JBool False, win_width = JNum 854, win_height = JNum 480\<rparr>\<rparr>,
      h_version = sample_version, h_platform = ''linux''\<rparr>"

section \<open>Native materializer\<close>

text \<open>
  The guard of \<open>getNatives\<close> is
  \<open>!await exists(dir) || !await fsPromises.readdir(dir).length\<close>.  Member access binds
  tighter than \<open>await\<close>: \<open>.length\<close> is read off the promise that \<open>readdir\<close> returns,
  not off the array it resolves to.  A promise object has no \<open>length\<close>.
\<close>

datatype 'a promise = Promise 'a

definition readdir :: "world \<Rightarrow> string \<Rightarrow> string list promise" where
  "readdir w dir = Promise (w_readdir w dir)"

definition promise_length :: "'a promise \<Rightarrow> jsval" where
  "promise_length p = JUndefined"

text \<open>\<open>await v\<close> of a value that is not a promise is the value.\<close>

definition await_value :: "jsval \<Rightarrow> jsval" where
  "await_value v = v"

definition nativesGuard :: "world \<Rightarrow> string \<Rightarrow> bool" where
  "nativesGuard w dir =
     (\<not> w_exists w dir \<or> \<not> truthy (await_value (promise_length (readdir w dir))))"

definition nativeDirectory :: "node \<Rightarrow> handler \<Rightarrow> string" where
  "nativeDirectory nd h =
     path_resolve nd
       (if str_truthy (ov_natives (opt_overrides (h_options h)))
        then tpl (ov_natives (opt_overrides (h_options h)))
        else path_join nd [opt_root (h_options h), ''natives'', ver_id (h_version h)])"

text \<open>
  One library of the first \<open>Promise.all\<close>: nothing is pushed for a library without
  classifiers or left out by \<open>parseRule\<close>; otherwise the classifier of the current OS
  is pushed, which may be \<open>undefined\<close>.
\<close>

definition nativeOf :: "handler \<Rightarrow> library \<Rightarrow> error + artifact option list" where
  "nativeOf h lib =
     (case lib_downloads lib of
        None \<Rightarrow> Inl TypeError
      | Some d \<Rightarrow>
          (case dl_classifiers d of
             None \<Rightarrow> Inr []
           | Some cl \<Rightarrow>
               (case parseRule h lib of
                  Inl e \<Rightarrow> Inl e
                | Inr v \<Rightarrow>
                    if truthy v then Inr []
                    else if getOS h = ''osx''
                    then Inr [case map_of cl ''natives-osx'' of
                                Some n \<Rightarrow> Some n
                              | None \<Rightarrow> map_of cl ''natives-macos'']
                    else Inr [map_of cl (''natives-'' @ getOS h)])))"

fun collectNatives :: "handler \<Rightarrow> library list \<Rightarrow> error + artifact option list" where
  "collectNatives h [] = Inr []"
| "collectNatives h (lib # libs) =
     (case nativeOf h lib of
        Inl e \<Rightarrow> Inl e
      | Inr ns \<Rightarrow>
          (case collectNatives h libs of
             Inl e \<Rightarrow> Inl e
           | Inr ms \<Rightarrow> Inr (ns @ ms)))"

text \<open>
  One native of the second \<open>Promise.all\<close>: download, check the hash, download again on
  a mismatch, extract (an error of the extraction is caught), delete the archive.
\<close>

definition fetchNative :: "node \<Rightarrow> world \<Rightarrow> string \<Rightarrow> artifact option \<Rightarrow> error + effect list" where
  "fetchNative nd w dir native =
     (case native of
        None \<Rightarrow> Inr []
      | Some n \<Rightarrow>
          (case art_path n of
             None \<Rightarrow> Inl TypeError
           | Some p \<Rightarrow>
               (let name = last (js_split CHR ''/'' p);
                    file = path_join nd [dir, name]
                in Inr ([Download (art_url n) dir name, CheckSum (art_sha1 n) file]
                        @ (if w_checkSum w (art_sha1 n) file then []
                           else [Download (art_url n) dir name])
                        @ [Extract file dir, Rm file]))))"

fun fetchNatives :: "node \<Rightarrow> world \<Rightarrow> string \<Rightarrow> artifact option list \<Rightarrow> effect list \<times> error option" where
  "fetchNatives nd w dir [] = ([], None)"
| "fetchNatives nd w dir (n # ns) =
     (case fetchNative nd w dir n of
        Inl e \<Rightarrow> ([], Some e)
      | Inr es \<Rightarrow> (case fetchNatives nd w dir ns of (es', r) \<Rightarrow> (es @ es', r)))"

text \<open>\<open>getNatives\<close>: the effects, and the directory returned or the error thrown.\<close>

definition getNatives :: "node \<Rightarrow> world \<Rightarrow> handler \<Rightarrow> effect list \<times> (error + string)" where
  "getNatives nd w h =
     (let dir = nativeDirectory nd h in
      if nativesGuard w dir then
        (case collectNatives h (libraries (h_version h)) of
           Inl e \<Rightarrow> ([Mkdir dir], Inl e)
         | Inr stat \<Rightarrow>
             (case fetchNatives nd w dir stat of
                (es, Some e) \<Rightarrow> (Mkdir dir # es, Inl e)
              | (es, None) \<Rightarrow> (Mkdir dir # es, Inr dir)))
      else ([], Inr dir))"

section \<open>Version resolver\<close>

text \<open>
  \<open>getVersion\<close> builds a promise.  \<open>resolve\<close> settles it the first time it is called;
  later calls change nothing.  When the descriptor's file is read, the callback of
  \<open>then\<close> resolves and returns, from the callback: the executor goes on to request
  the manifest.  When the read fails, \<open>.catch()\<close> has no handler, the rejection passes
  through \<open>await\<close>, and the executor stops with the promise still pending.
  The result is the trace and what the promise is resolved with; the assignments to
  \<open>this.version\<close> are not followed.
\<close>

datatype resolution = Pending | Resolved descriptor | ResolvedError

definition resolve :: "resolution \<Rightarrow> resolution \<Rightarrow> resolution" where
  "resolve r v = (case r of Pending \<Rightarrow> v | _ \<Rightarrow> r)"

definition versionJsonPath :: "node \<Rightarrow> handler \<Rightarrow> string" where
  "versionJsonPath nd h =
     (if str_truthy (ov_versionJson (opt_overrides (h_options h)))
      then tpl (ov_versionJson (opt_overrides (h_options h)))
      else path_join nd [opt_directory (h_options h), version_number (h_options h) @ ''.json''])"

definition manifestUrl :: "handler \<Rightarrow> string" where
  "manifestUrl h = ov_url_meta (opt_overrides (h_options h)) @ ''/mc/game/version_manifest.json''"

text \<open>
  The callback of one request for a descriptor: on an error it resolves with the error
  and then throws in \<open>JSON.parse(undefined)\<close>; otherwise it resolves with the
  descriptor parsed.
\<close>

fun fetchVersions :: "world \<Rightarrow> string list \<Rightarrow> resolution \<Rightarrow> resolution" where
  "fetchVersions w [] r = r"
| "fetchVersions w (u # us) r =
     fetchVersions w us
       (case w_descriptor w u of
          None \<Rightarrow> resolve r ResolvedError
        | Some v \<Rightarrow> resolve r (Resolved v))"

definition fromManifest :: "world \<Rightarrow> handler \<Rightarrow> resolution \<Rightarrow> effect list \<times> resolution" where
  "fromManifest w h r =
     (case w_manifest w (manifestUrl h) of
        None \<Rightarrow> ([HttpGet (manifestUrl h)], resolve r ResolvedError)
      | Some versions \<Rightarrow>
          (let urls = map snd (filter (\<lambda>entry. fst entry = version_number (h_options h)) versions)
           in (HttpGet (manifestUrl h) # map HttpGet urls, fetchVersions w urls r)))"

definition getVersion :: "node \<Rightarrow> world \<Rightarrow> handler \<Rightarrow> effect list \<times> resolution" where
  "getVersion nd w h =
     (case w_readJson w (versionJsonPath nd h) of
        None \<Rightarrow> ([ReadFile (versionJsonPath nd h)], Pending)
      | Some v \<Rightarrow>
          (case fromManifest w h (resolve Pending (Resolved v)) of
             (es, r) \<Rightarrow> (ReadFile (versionJsonPath nd h) # es, r)))"

text \<open>The requests of a trace.\<close>

definition fetches :: "effect list \<Rightarrow> effect list" where
  "fetches es = filter (\<lambda>e. case e of HttpGet u \<Rightarrow> True | Download u d n \<Rightarrow> True | _ \<Rightarrow> False) es"

subsection \<open>A second run\<close>

definition lwjgl_natives :: library where
  "lwjgl_natives =
     \<lparr>lib_name = ''org.lwjgl.lwjgl:lwjgl-platform:2.9.4-nightly-20150209'', lib_url = None,
      lib_rules = None,
      lib_downloads = Some \<lparr>dl_artifact = None,
        dl_classifiers = Some
          [(''natives-linux'',
            \<lparr>art_path = Some ''org/lwjgl/lwjgl/lwjgl-platform/2.9.4-nightly-20150209/lwjgl-platform-2.9.4-nightly-20150209-natives-linux.jar'',
             art_url = ''https://libraries.minecraft.net/org/lwjgl/lwjgl/lwjgl-platform/2.9.4-nightly-20150209/lwjgl-platform-2.9.4-nightly-20150209-natives-linux.jar'',
             art_sha1 = ''931074f46c795d2f7b30ed6395df5715cfd7675b''\<rparr>)]\<rparr>,
      lib_serverreq = False, lib_clientreq = False\<rparr>"

definition natives_handler :: handler where
  "natives_handler =
     \<lparr>h_options = sample_options,
      h_version = sample_version\<lparr>libraries := [lwjgl_natives]\<rparr>,
      h_platform = ''linux''\<rparr>"

text \<open>
  The world after a first run: the natives directory holds the extracted library, the
  descriptor is on disk, every hash is right, and the manifest lists the version.
\<close>

definition second_run :: world where
  "second_run =
     \<lparr>w_exists = (\<lambda>p. True),
      w_readdir = (\<lambda>p. if p = ''/tmp/mc/natives/1.19.2'' then [''liblwjgl64.so''] else []),
      w_checkSum = (\<lambda>hash file. True),
      w_readJson = (\<lambda>p. if p = ''/tmp/mc/versions/1.19.2/1.19.2.json'' then Some sample_version else None),
      w_manifest = (\<lambda>u. Some [(''1.19.2'', ''https://piston-meta.mojang.com/v1/packages/1.19.2.json'')]),
      w_descriptor = (\<lambda>u. Some sample_version),
      w_download = (\<lambda>u. True),
      w_zipReadable = (\<lambda>zip. False),
      w_zipEntry = (\<lambda>zip entry. False)\<rparr>"

section \<open>Library materializer\<close>

definition popString :: "string \<Rightarrow> string" where
  "popString p = js_join ''/'' (butlast (js_split CHR ''/'' p))"

text \<open>\<open>library.downloads && library.downloads.artifact\<close>.\<close>

definition artifactOf :: "library \<Rightarrow> artifact option" where
  "artifactOf l = (case lib_downloads l of None \<Rightarrow> None | Some d \<Rightarrow> dl_artifact d)"

text \<open>The Maven coordinate's directory, \<open>group/artifact/version\<close> with the group's dots as slashes.\<close>

definition coordinateDir :: "string list \<Rightarrow> string" where
  "coordinateDir lib =
     dots_to_slashes (hd lib) @ ''/'' @ tpl (nth_opt lib 1) @ ''/'' @ tpl (nth_opt lib 2)"

text \<open>\<open>jarPath\<close> and \<open>name\<close> of a library.\<close>

definition libraryTarget :: "node \<Rightarrow> string \<Rightarrow> library \<Rightarrow> string \<times> string" where
  "libraryTarget nd directory library =
     (let lib = js_split CHR '':'' (lib_name library) in
      case (case artifactOf library of
              None \<Rightarrow> None
            | Some a \<Rightarrow> if str_truthy (art_path a) then art_path a else None) of
        Some p \<Rightarrow> (path_join nd [directory, popString p], last (js_split CHR ''/'' p))
      | None \<Rightarrow>
          (path_join nd [directory, coordinateDir lib],
           tpl (nth_opt lib 1) @ ''-'' @ tpl (nth_opt lib 2)
             @ (if str_truthy (nth_opt lib 3) then ''-'' @ tpl (nth_opt lib 3) else [])
             @ ''.jar''))"

text \<open>The classpath entry pushed for a library: \<open>jarPath\<close>, \<open>path.sep\<close>, \<open>name\<close>.\<close>

definition libraryPath :: "node \<Rightarrow> string \<Rightarrow> library \<Rightarrow> string" where
  "libraryPath nd directory library =
     (case libraryTarget nd directory library of (jarPath, name) \<Rightarrow> jarPath @ path_sep nd @ name)"

text \<open>The downloads of one library: none when its file exists, or when it has neither \<open>url\<close> nor artifact.\<close>

definition libraryDownloads :: "node \<Rightarrow> world \<Rightarrow> string \<Rightarrow> library \<Rightarrow> effect list" where
  "libraryDownloads nd w directory library =
     (case libraryTarget nd directory library of
        (jarPath, name) \<Rightarrow>
          if \<not> w_exists w (path_join nd [jarPath, name]) then
            (if str_truthy (lib_url library)
             then [Download (tpl (lib_url library)
                               @ coordinateDir (js_split CHR '':'' (lib_name library)) @ ''/'' @ name)
                            jarPath name]
             else (case artifactOf library of
                     Some a \<Rightarrow> [Download (art_url a) jarPath name]
                   | None \<Rightarrow> []))
          else [])"

text \<open>
  One element of \<open>libraries.map(async library => ...)\<close>: an \<open>undefined\<close> element
  returns at once; for any other the path is pushed, whether or not anything was
  downloaded.
\<close>

definition libraryStep :: "node \<Rightarrow> world \<Rightarrow> string \<Rightarrow> library option \<Rightarrow> effect list \<times> string list" where
  "libraryStep nd w directory library =
     (case library of
        None \<Rightarrow> ([], [])
      | Some l \<Rightarrow> (libraryDownloads nd w directory l, [libraryPath nd directory l]))"

text \<open>
  The steps run interleaved under \<open>Promise.all\<close>.  Each awaits \<open>exists\<close> first; a step
  with nothing to download then pushes its path at once, and a step that downloads
  pushes its path when the download has ended.  So the paths of the libraries with
  nothing to download come first, in the order of the array, and those of the
  downloaded libraries follow; downloads are taken to end in the order they began.
\<close>

definition pushOrder :: "(effect list \<times> string list) list \<Rightarrow> string list" where
  "pushOrder steps =
     concat (map snd (filter (\<lambda>s. fst s = []) steps))
       @ concat (map snd (filter (\<lambda>s. fst s \<noteq> []) steps))"

definition downloadToDirectory ::
    "node \<Rightarrow> world \<Rightarrow> string \<Rightarrow> library option list \<Rightarrow> effect list \<times> string list" where
  "downloadToDirectory nd w directory libs =
     (let steps = map (libraryStep nd w directory) libs
      in (concat (map fst steps), pushOrder steps))"

definition libraryDirectory :: "node \<Rightarrow> handler \<Rightarrow> string" where
  "libraryDirectory nd h =
     path_resolve nd
       (if str_truthy (ov_libraryRoot (opt_overrides (h_options h)))
        then tpl (ov_libraryRoot (opt_overrides (h_options h)))
        else path_join nd [opt_root (h_options h), ''libraries''])"

text \<open>
  \<open>this.version.libraries.map(lib => { if (lib.downloads.artifact && !this.parseRule(lib)) return lib })\<close>:
  the libraries that are not kept become \<open>undefined\<close> elements.
\<close>

definition parsedLibrary :: "handler \<Rightarrow> library \<Rightarrow> error + library option" where
  "parsedLibrary h lib =
     (case lib_downloads lib of
        None \<Rightarrow> Inl TypeError
      | Some d \<Rightarrow>
          (case dl_artifact d of
             None \<Rightarrow> Inr None
           | Some a \<Rightarrow>
               (case parseRule h lib of
                  Inl e \<Rightarrow> Inl e
                | Inr v \<Rightarrow> if truthy v then Inr None else Inr (Some lib))))"

fun parsedLibraries :: "handler \<Rightarrow> library list \<Rightarrow> error + library option list" where
  "parsedLibraries h [] = Inr []"
| "parsedLibraries h (lib # libs) =
     (case parsedLibrary h lib of
        Inl e \<Rightarrow> Inl e
      | Inr l \<Rightarrow>
          (case parsedLibraries h libs of
             Inl e \<Rightarrow> Inl e
           | Inr ls \<Rightarrow> Inr (l # ls)))"

text \<open>
  The part of \<open>getClasses(classJson)\<close> for a truthy \<open>classJson\<close>.  A function has no
  \<open>libraries\<close>: \<open>downloadToDirectory\<close> then calls \<open>map\<close> on \<open>undefined\<close>.
\<close>

definition customClasses ::
    "node \<Rightarrow> world \<Rightarrow> handler \<Rightarrow> custom \<Rightarrow> effect list \<times> (error + string list)" where
  "customClasses nd w h classJson =
     (case classJson of
        CustomNull \<Rightarrow> ([], Inr [])
      | AsyncFn body \<Rightarrow> ([], Inl TypeError)
      | CustomDescriptor c \<Rightarrow>
          (let es0 = (case mavenFiles c of
                        None \<Rightarrow> []
                      | Some ms \<Rightarrow> fst (downloadToDirectory nd w (libraryDirectory nd h) (map Some ms)))
           in case downloadToDirectory nd w (libraryDirectory nd h) (map Some (libraries c)) of
                (es1, libs) \<Rightarrow> (es0 @ es1, Inr libs)))"

definition getClasses ::
    "node \<Rightarrow> world \<Rightarrow> handler \<Rightarrow> custom \<Rightarrow> effect list \<times> (error + string list)" where
  "getClasses nd w h classJson =
     (case customClasses nd w h classJson of
        (es, Inl e) \<Rightarrow> (es, Inl e)
      | (es, Inr libs) \<Rightarrow>
          (case parsedLibraries h (libraries (h_version h)) of
             Inl e \<Rightarrow> (es, Inl e)
           | Inr parsed \<Rightarrow>
               (case downloadToDirectory nd w (libraryDirectory nd h) parsed of
                  (es2, libs2) \<Rightarrow> (es @ es2, Inr (libs @ libs2)))))"

text \<open>
  \<open>cleanUp\<close>: \<open>for (const classPath in array)\<close> visits the indices in order, and an
  element goes into \<open>newArray\<close> unless \<open>newArray.includes\<close> it already.
\<close>

fun cleanUp_loop :: "string list \<Rightarrow> string list \<Rightarrow> string list" where
  "cleanUp_loop newArray [] = newArray"
| "cleanUp_loop newArray (x # xs) =
     (if x \<in> set newArray then cleanUp_loop newArray xs else cleanUp_loop (newArray @ [x]) xs)"

definition cleanUp :: "string list \<Rightarrow> string list" where
  "cleanUp array = cleanUp_loop [] array"

section \<open>The classpath\<close>

text \<open>Lines 108 to 124 of \<open>launch\<close>: \<open>classes\<close>, the separator, and the string after \<open>-cp\<close>.\<close>

definition launchClasses :: "handler \<Rightarrow> string list \<Rightarrow> string list" where
  "launchClasses h gotten =
     (case ov_classes (opt_overrides (h_options h)) of
        Some c \<Rightarrow> c
      | None \<Rightarrow> cleanUp gotten)"

definition separator :: "handler \<Rightarrow> string" where
  "separator h = (if getOS h = ''windows'' then '';'' else '':'')"

definition mcPath :: "node \<Rightarrow> handler \<Rightarrow> string" where
  "mcPath nd h =
     (if str_truthy (ov_minecraftJar (opt_overrides (h_options h)))
      then tpl (ov_minecraftJar (opt_overrides (h_options h)))
      else if str_truthy (version_custom (h_options h))
      then path_join nd [opt_root (h_options h), ''versions'', tpl (version_custom (h_options h)),
                         tpl (version_custom (h_options h)) @ ''.jar'']
      else path_join nd [opt_directory (h_options h), version_number (h_options h) @ ''.jar''])"

definition classPath :: "node \<Rightarrow> world \<Rightarrow> handler \<Rightarrow> forge_result \<Rightarrow> string list \<Rightarrow> string" where
  "classPath nd w h forge_res classes =
     (case forge_res of
        ForgeDeps f \<Rightarrow>
          path_resolve nd (tpl (opt_forge (h_options h))) @ separator h
            @ js_join (separator h) (paths f) @ separator h
            @ js_join (separator h) classes @ separator h @ mcPath nd h
      | _ \<Rightarrow>
          js_join (separator h) classes @ separator h
            @ (if w_exists w (mcPath nd h) then mcPath nd h
               else path_join nd [opt_directory (h_options h), version_number (h_options h) @ ''.jar'']))"

section \<open>Forge overlay\<close>

text \<open>\<open>s.includes(sub)\<close>.\<close>

fun js_includes :: "string \<Rightarrow> string \<Rightarrow> bool" where
  "js_includes sub [] = (sub = [])"
| "js_includes sub (c # cs) = (take (length sub) (c # cs) = sub \<or> js_includes sub cs)"

text \<open>
  One Forge library: skipped when it is Forge itself, or when it has no \<open>url\<close> and is
  required by neither side; else its path is pushed, after a download (and a second one
  from the fallback repository when the first resolves to a falsy value) unless the
  file exists.
\<close>

definition forgeLibrary ::
    "node \<Rightarrow> world \<Rightarrow> handler \<Rightarrow> library \<Rightarrow> error + effect list \<times> string list" where
  "forgeLibrary nd w h library =
     (let lib = js_split CHR '':'' (lib_name library);
          jarPath = path_join nd [libraryDirectory nd h, coordinateDir lib];
          name = tpl (nth_opt lib 1) @ ''-'' @ tpl (nth_opt lib 2) @ ''.jar'';
          ov = opt_overrides (h_options h)
      in if hd lib = ''net.minecraftforge'' \<and> nth_opt lib 1 = None then Inl TypeError
         else if hd lib = ''net.minecraftforge'' \<and> js_includes ''forge'' (tpl (nth_opt lib 1))
         then Inr ([], [])
         else if \<not> str_truthy (lib_url library) \<and> \<not> (lib_serverreq library \<or> lib_clientreq library)
         then Inr ([], [])
         else
           (let url = (if \<not> str_truthy (lib_url library) then ov_url_defaultRepoForge ov
                       else ov_url_mavenForge ov);
                downloadLink = url @ coordinateDir lib @ ''/'' @ name
            in if w_exists w (path_join nd [jarPath, name])
               then Inr ([], [jarPath @ path_sep nd @ name])
               else Inr ((if \<not> w_exists w jarPath then [Mkdir jarPath] else [])
                         @ [Download downloadLink jarPath name]
                         @ (if \<not> w_download w downloadLink
                            then [Download (ov_url_fallbackMaven ov @ coordinateDir lib @ ''/'' @ name)
                                           jarPath name]
                            else []),
                         [jarPath @ path_sep nd @ name])))"

fun forgeSteps ::
    "node \<Rightarrow> world \<Rightarrow> handler \<Rightarrow> library list
      \<Rightarrow> effect list \<times> (error + (effect list \<times> string list) list)" where
  "forgeSteps nd w h [] = ([], Inr [])"
| "forgeSteps nd w h (l # ls) =
     (case forgeLibrary nd w h l of
        Inl e \<Rightarrow> ([], Inl e)
      | Inr step \<Rightarrow>
          (case forgeSteps nd w h ls of
             (es', Inl e) \<Rightarrow> (fst step @ es', Inl e)
           | (es', Inr steps) \<Rightarrow> (fst step @ es', Inr (step # steps))))"

text \<open>The Forge paths, in the order they are pushed: as in \<open>downloadToDirectory\<close>.\<close>

definition forgeLibraries ::
    "node \<Rightarrow> world \<Rightarrow> handler \<Rightarrow> library list \<Rightarrow> effect list \<times> (error + string list)" where
  "forgeLibraries nd w h libs =
     (case forgeSteps nd w h libs of
        (es, Inl e) \<Rightarrow> (es, Inl e)
      | (es, Inr steps) \<Rightarrow> (es, Inr (pushOrder steps)))"

definition forgeJson :: "node \<Rightarrow> handler \<Rightarrow> string" where
  "forgeJson nd h = path_join nd [opt_root (h_options h), ''forge'', ver_id (h_version h), ''version.json'']"

definition getForgeDependenciesLegacy ::
    "node \<Rightarrow> world \<Rightarrow> handler \<Rightarrow> effect list \<times> (error + forge_result)" where
  "getForgeDependenciesLegacy nd w h =
     (let forgeDir = path_join nd [opt_root (h_options h), ''forge''];
          es0 = (if \<not> w_exists w forgeDir then [Mkdir forgeDir] else []);
          zip = tpl (opt_forge (h_options h))
      in if \<not> w_zipReadable w zip then (es0, Inl ZipError)
         else if w_zipEntry w zip ''install_profile.json'' then (es0, Inr ForgeFalse)
         else if \<not> w_zipEntry w zip ''version.json'' then (es0, Inr ForgeNull)
         else
           (let es1 = es0 @ [ExtractEntry zip ''version.json''
                               (path_join nd [opt_root (h_options h), ''forge'', ver_id (h_version h)]),
                             ReadFile (forgeJson nd h)]
            in case w_readJson w (forgeJson nd h) of
                 None \<Rightarrow> (es1, Inl ReadError)
               | Some f \<Rightarrow>
                   (case forgeLibraries nd w h (libraries f) of
                      (es2, Inl e) \<Rightarrow> (es1 @ es2, Inl e)
                    | (es2, Inr ps) \<Rightarrow> (es1 @ es2, Inr (ForgeDeps \<lparr>paths = ps, forge = f\<rparr>)))))"

text \<open>
  \<open>getForgedWrapped\<close> returns \<open>async resolve => { ... }\<close>: the function, not a call of
  it.  Its body would run ForgeWrapper and read \<open>version.json\<close>.
\<close>

definition launchArgs :: "node \<Rightarrow> handler \<Rightarrow> string" where
  "launchArgs nd h =
     ''\"'' @ (if str_truthy (javaPath (h_options h)) then tpl (javaPath (h_options h)) else ''java'')
       @ ''\" -jar '' @ path_resolve nd (forgeWrapper_jar (h_options h))
       @ '' --installer='' @ tpl (opt_forge (h_options h))
       @ '' --instance='' @ opt_root (h_options h)
       @ '' --saveTo='' @ path_join nd [libraryDirectory nd h, ''io'', ''github'', ''zekerzhayard'',
                                         ''ForgeWrapper'', forgeWrapper_version (h_options h)]"

definition getForgedWrapped :: "node \<Rightarrow> handler \<Rightarrow> custom" where
  "getForgedWrapped nd h = AsyncFn [Exec (launchArgs nd h), ReadFile (forgeJson nd h)]"

text \<open>\<open>await v\<close> of a function is the function.\<close>

definition await_custom :: "custom \<Rightarrow> custom" where
  "await_custom c = c"

definition custom_truthy :: "custom \<Rightarrow> bool" where
  "custom_truthy c = (case c of CustomNull \<Rightarrow> False | _ \<Rightarrow> True)"

text \<open>
  Lines 78 to 89 of \<open>launch\<close>, after \<open>this.options.forge = path.resolve(this.options.forge)\<close>:
  the values of \<open>forge\<close> and \<open>custom\<close>.
\<close>

definition customJson :: "node \<Rightarrow> handler \<Rightarrow> string" where
  "customJson nd h =
     path_join nd [opt_root (h_options h), ''versions'', tpl (version_custom (h_options h)),
                   tpl (version_custom (h_options h)) @ ''.json'']"

definition forgeStage ::
    "node \<Rightarrow> world \<Rightarrow> handler \<Rightarrow> effect list \<times> (error + forge_result \<times> custom)" where
  "forgeStage nd w h =
     (case (if str_truthy (opt_forge (h_options h)) then
              (case getForgeDependenciesLegacy nd w h of
                 (es, Inl e) \<Rightarrow> (es, Inl e)
               | (es, Inr ForgeFalse) \<Rightarrow> (es, Inr (ForgeFalse, await_custom (getForgedWrapped nd h)))
               | (es, Inr f) \<Rightarrow> (es, Inr (f, CustomNull)))
            else ([], Inr (ForgeNull, CustomNull))) of
        (es, Inl e) \<Rightarrow> (es, Inl e)
      | (es, Inr (f, c)) \<Rightarrow>
          if custom_truthy c then (es, Inr (f, c))
          else if str_truthy (version_custom (h_options h)) then
            (case w_readJson w (customJson nd h) of
               None \<Rightarrow> (es @ [ReadFile (customJson nd h)], Inl ReadError)
             | Some d \<Rightarrow> (es @ [ReadFile (customJson nd h)], Inr (f, CustomDescriptor d)))
          else (es, Inr (f, c)))"

text \<open>The processes started in a trace.\<close>

definition execs :: "effect list \<Rightarrow> effect list" where
  "execs es = filter (\<lambda>e. case e of Exec c \<Rightarrow> True | _ \<Rightarrow> False) es"

subsection \<open>Sample libraries and worlds\<close>

text \<open>A library of a custom descriptor that gives only its name: no \<open>url\<close>, no \<open>downloads\<close>.\<close>

definition optifine :: library where
  "optifine =
     \<lparr>lib_name = ''optifine:OptiFine:1.12.2_HD_U_E3'', lib_url = None, lib_rules = None,
      lib_downloads = None, lib_serverreq = False, lib_clientreq = False\<rparr>"

text \<open>The same library in a vanilla descriptor and in a legacy Forge descriptor.\<close>

definition jopt_vanilla :: library where
  "jopt_vanilla =
     \<lparr>lib_name = ''net.sf.jopt-simple:jopt-simple:5.0.3'', lib_url = None, lib_rules = None,
      lib_downloads = Some \<lparr>dl_artifact = Some
          \<lparr>art_path = Some ''net/sf/jopt-simple/jopt-simple/5.0.3/jopt-simple-5.0.3.jar'',
           art_url = ''https://libraries.minecraft.net/net/sf/jopt-simple/jopt-simple/5.0.3/jopt-simple-5.0.3.jar'',
           art_sha1 = ''cdd846cfc4e0f7eefafc02c0f5dce32b9303aa2a''\<rparr>,
        dl_classifiers = None\<rparr>,
      lib_serverreq = False, lib_clientreq = False\<rparr>"

definition jopt_forge :: library where
  "jopt_forge =
     \<lparr>lib_name = ''net.sf.jopt-simple:jopt-simple:5.0.3'', lib_url = None, lib_rules = None,
      lib_downloads = None, lib_serverreq = True, lib_clientreq = False\<rparr>"

definition forge_itself :: library where
  "forge_itself =
     \<lparr>lib_name = ''net.minecraftforge:forge:1.12.2-14.23.5.2854'', lib_url = None, lib_rules = None,
      lib_downloads = None, lib_serverreq = False, lib_clientreq = False\<rparr>"

definition legacy_forge_descriptor :: descriptor where
  "legacy_forge_descriptor =
     \<lparr>ver_id = ''1.12.2-forge1.12.2-14.23.5.2854'',
      mainClass = ''net.minecraft.launchwrapper.Launch'',
      assets = None, assetIndex_id = [], libraries = [forge_itself, jopt_forge], mavenFiles = None,
      minecraftArguments = Some ''--username ${auth_player_name} --tweakClass net.minecraftforge.fml.common.launcher.FMLTweaker'',
      arguments_game = None\<rparr>"

definition legacy_version :: descriptor where
  "legacy_version =
     \<lparr>ver_id = ''1.12.2'', mainClass = ''net.minecraft.client.main.Main'',
      assets = Some ''1.12'', assetIndex_id = ''1.12'', libraries = [jopt_vanilla], mavenFiles = None,
      minecraftArguments = Some ''--username ${auth_player_name} --version ${version_name} --gameDir ${game_directory} --assetsDir ${assets_root} --assetIndex ${assets_index_name} --uuid ${auth_uuid} --accessToken ${auth_access_token} --userType ${user_type} --versionType ${version_type}'',
      arguments_game = None\<rparr>"

definition forge_handler :: "string \<Rightarrow> handler" where
  "forge_handler jar =
     \<lparr>h_options = sample_options
        \<lparr>opt_forge := Some jar, version_number := ''1.12.2'',
         opt_directory := ''/tmp/mc/versions/1.12.2''\<rparr>,
      h_version = legacy_version,
      h_platform = ''linux''\<rparr>"

text \<open>
  A world before the first run, where no path exists yet.  The archive
  \<open>/tmp/forge-universal.jar\<close> holds \<open>version.json\<close>, the archive
  \<open>/tmp/forge-installer.jar\<close> holds \<open>install_profile.json\<close>.
\<close>

definition first_run :: world where
  "first_run =
     \<lparr>w_exists = (\<lambda>p. False),
      w_readdir = (\<lambda>p. []),
      w_checkSum = (\<lambda>hash file. True),
      w_readJson = (\<lambda>p. if p = ''/tmp/mc/forge/1.12.2/version.json''
                           then Some legacy_forge_descriptor else None),
      w_manifest = (\<lambda>u. Some [(''1.19.2'', ''https://piston-meta.mojang.com/v1/packages/1.19.2.json'')]),
      w_descriptor = (\<lambda>u. Some sample_version),
      w_download = (\<lambda>u. True),
      w_zipReadable = (\<lambda>zip. zip = ''/tmp/forge-universal.jar'' \<or> zip = ''/tmp/forge-installer.jar''),
      w_zipEntry = (\<lambda>zip entry.
         (zip = ''/tmp/forge-universal.jar'' \<and> entry = ''version.json'')
         \<or> (zip = ''/tmp/forge-installer.jar'' \<and> entry = ''install_profile.json''))\<rparr>"

definition jopt_path :: string where
  "jopt_path = ''/tmp/mc/libraries/net/sf/jopt-simple/jopt-simple/5.0.3/jopt-simple-5.0.3.jar''"

section \<open>Properties of the rule evaluator\<close>

lemma getOS_darwin: "getOS (on_platform ''darwin'') = ''osx''"
  by (simp add: getOS_def on_platform_def sample_options_def str_truthy_def)

lemma getOS_linux: "getOS (on_platform ''linux'') = ''linux''"
  by (simp add: getOS_def on_platform_def sample_options_def str_truthy_def)

text \<open>
  Claim C1, as amended.  \<open>parseRule\<close> answers "leave out", and its callers keep a
  library exactly when the answer is falsy; read that way the table holds with its two
  rows that depend on the OS turned around.  A library with no rules is kept; a library
  whose single rule is \<open>allow\<close> with the \<open>os\<close> clause of osx is kept exactly on osx; a
  library with the two rules \<open>allow\<close> and then \<open>disallow\<close> with
  \<open>os.name = "osx"\<close> is kept exactly off osx; and every other list of two or more rules
  is left out.  Nothing is said of a single rule of another shape, nor of an empty list
  of rules.
\<close>

theorem parseRule_decides:
  "(lib_rules lib = None \<longrightarrow> included h lib = Inr True)
   \<and> (\<forall>r c. lib_rules lib = Some [r] \<and> rule_action r = ''allow'' \<and> rule_os r = Some c
          \<and> os_name c = Some ''osx''
          \<longrightarrow> included h lib = Inr (getOS h = ''osx''))
   \<and> (\<forall>r0 r1 c. lib_rules lib = Some [r0, r1] \<and> rule_action r0 = ''allow''
          \<and> rule_action r1 = ''disallow'' \<and> rule_os r1 = Some c \<and> os_name c = Some ''osx''
          \<longrightarrow> included h lib = Inr (getOS h \<noteq> ''osx''))
   \<and> (\<forall>r0 r1 rs. lib_rules lib = Some (r0 # r1 # rs)
          \<and> (rule_action r0 \<noteq> ''allow'' \<or> rule_action r1 \<noteq> ''disallow''
              \<or> (\<exists>c. rule_os r1 = Some c \<and> os_name c \<noteq> Some ''osx''))
          \<longrightarrow> included h lib = Inr False)"
  by (auto simp: included_def parseRule_def)

text \<open>The rows of the table at sample libraries, on a darwin host and on a linux host.\<close>

theorem parseRule_decides_witness:
  "included (on_platform ''darwin'') (lib_with_rules None) = Inr True
   \<and> included (on_platform ''darwin'') (lib_with_rules (Some [allow_osx_rule])) = Inr True
   \<and> included (on_platform ''linux'') (lib_with_rules (Some [allow_osx_rule])) = Inr False
   \<and> included (on_platform ''linux'') (lib_with_rules (Some [allow_rule, disallow_osx_rule])) = Inr True
   \<and> included (on_platform ''darwin'') (lib_with_rules (Some [allow_rule, disallow_osx_rule])) = Inr False
   \<and> included (on_platform ''linux'') (lib_with_rules (Some [disallow_rule, allow_rule])) = Inr False"
  using parseRule_decides [of "lib_with_rules None" "on_platform ''darwin''"]
    parseRule_decides [of "lib_with_rules (Some [allow_osx_rule])" "on_platform ''darwin''"]
    parseRule_decides [of "lib_with_rules (Some [allow_osx_rule])" "on_platform ''linux''"]
    parseRule_decides [of "lib_with_rules (Some [allow_rule, disallow_osx_rule])" "on_platform ''linux''"]
    parseRule_decides [of "lib_with_rules (Some [allow_rule, disallow_osx_rule])" "on_platform ''darwin''"]
    parseRule_decides [of "lib_with_rules (Some [disallow_rule, allow_rule])" "on_platform ''linux''"]
  by (simp add: lib_with_rules_def allow_rule_def allow_osx_rule_def disallow_rule_def
      disallow_osx_rule_def getOS_darwin getOS_linux)

text \<open>
  Claim C1 as the specification states it fails: on osx the library with rules
  \<open>allow\<close>, \<open>disallow\<close> osx is left out where the table keeps it, and on linux the
  single rule \<open>allow\<close> with the \<open>os\<close> clause of osx leaves the library out where the
  table keeps it.
\<close>

theorem parseRule_spec_table_counterexample:
  "included (on_platform ''darwin'') (lib_with_rules (Some [allow_rule, disallow_osx_rule])) = Inr False
   \<and> spec_included (getOS (on_platform ''darwin'')) (lib_with_rules (Some [allow_rule, disallow_osx_rule]))
   \<and> included (on_platform ''linux'') (lib_with_rules (Some [allow_osx_rule])) = Inr False
   \<and> spec_included (getOS (on_platform ''linux'')) (lib_with_rules (Some [allow_osx_rule]))"
  by (simp add: included_def parseRule_def spec_included_def lib_with_rules_def allow_rule_def
      allow_osx_rule_def disallow_osx_rule_def getOS_darwin getOS_linux)

section \<open>Properties of argument synthesis\<close>

subsection \<open>The substitution loop\<close>

lemma substLoop_done: "\<not> index < length args \<Longrightarrow> substLoop fs index args = args"
  by (subst substLoop.simps) simp

lemma substLoop_step:
  "index < length args \<Longrightarrow>
   substLoop fs index args = substLoop fs (Suc index) (loopBody fs index args)"
  by (subst substLoop.simps) simp

lemma survivors_plain: "typeof x \<noteq> ''object'' \<Longrightarrow> survivors (x # xs) = x # survivors xs"
  by (cases xs rule: survivors.cases) auto

lemma survivors_structured:
  "typeof x = ''object'' \<Longrightarrow>
   survivors (x # xs) = (case drop 1 xs of [] \<Rightarrow> [] | z # zs \<Rightarrow> z # survivors zs)"
  by (cases xs rule: survivors.cases) auto

lemma loopBody_plain:
  "typeof x \<noteq> ''object'' \<Longrightarrow>
   loopBody fs (length pre) (pre @ x # rest) = pre @ subst1 fs x # rest"
  by (auto simp: loopBody_def nth_opt_def subst1_def split: jsval.splits option.splits)

lemma loopBody_structured_end:
  "typeof x = ''object'' \<Longrightarrow> drop 1 rest = [] \<Longrightarrow>
   loopBody fs (length pre) (pre @ x # rest) = pre"
  by (auto simp: loopBody_def nth_opt_def splice_def)

lemma loopBody_structured:
  "typeof x = ''object'' \<Longrightarrow> drop 1 rest = z # zs \<Longrightarrow>
   loopBody fs (length pre) (pre @ x # rest) = pre @ subst1 fs z # zs"
  by (auto simp: loopBody_def nth_opt_def splice_def subst1_def nth_append
      split: jsval.splits option.splits)

lemma substLoop_survivors_aux:
  "index \<le> length args \<Longrightarrow>
   substLoop fs index args = take index args @ map (subst1 fs) (survivors (drop index args))"
proof (induction fs index args rule: substLoop.induct)
  case (1 fs index args)
  show ?case
  proof (cases "index < length args")
    case False
    with 1 show ?thesis by (simp add: substLoop_done)
  next
    case True
    define pre where "pre = take index args"
    define x where "x = args ! index"
    define rest where "rest = drop (Suc index) args"
    have args: "args = pre @ x # rest" and len: "length pre = index"
      using True by (simp_all add: pre_def x_def rest_def id_take_nth_drop)
    have step: "substLoop fs index args = substLoop fs (Suc index) (loopBody fs index args)"
      using True by (rule substLoop_step)
    have target: "take index args @ map (subst1 fs) (survivors (drop index args))
        = pre @ map (subst1 fs) (survivors (x # rest))"
      using len by (simp add: args)
    show ?thesis
    proof (cases "typeof x = ''object''")
      case False
      have body: "loopBody fs index args = pre @ subst1 fs x # rest"
        using loopBody_plain [OF False, of fs pre rest] by (simp add: args len)
      have "substLoop fs (Suc index) (loopBody fs index args)
          = take (Suc index) (loopBody fs index args)
            @ map (subst1 fs) (survivors (drop (Suc index) (loopBody fs index args)))"
        using "1.IH" [OF True] len by (simp add: body)
      then show ?thesis
        using len by (simp add: step target body survivors_plain [OF False])
    next
      case obj: True
      show ?thesis
      proof (cases "drop 1 rest")
        case Nil
        have body: "loopBody fs index args = pre"
          using loopBody_structured_end [OF obj Nil, of fs pre] by (simp add: args len)
        show ?thesis
          using len Nil
          by (simp add: step target body survivors_structured [OF obj] substLoop_done)
      next
        case (Cons z zs)
        have body: "loopBody fs index args = pre @ subst1 fs z # zs"
          using loopBody_structured [OF obj Cons, of fs pre] by (simp add: args len)
        have "substLoop fs (Suc index) (loopBody fs index args)
            = take (Suc index) (loopBody fs index args)
              @ map (subst1 fs) (survivors (drop (Suc index) (loopBody fs index args)))"
          using "1.IH" [OF True] len by (simp add: body)
        then show ?thesis
          using len Cons by (simp add: step target body survivors_structured [OF obj])
      qed
    qed
  qed
qed

lemma substLoop_survivors: "substLoop fs 0 args = map (subst1 fs) (survivors args)"
  using substLoop_survivors_aux [of 0 args fs] by simp

subsection \<open>The store\<close>

lemma cells_store: "cells (store hp a xs) b = (if b = a then xs else cells hp b)"
  by (simp add: store_def)

lemma cells_push: "cells (push hp a ys) b = (if b = a then cells hp a @ ys else cells hp b)"
  by (simp add: push_def store_def)

lemma next_free_store: "next_free (store hp a xs) = next_free hp"
  by (simp add: store_def)

lemma next_free_push: "next_free (push hp a ys) = next_free hp"
  by (simp add: push_def store_def)

subsection \<open>Placeholders\<close>

lemma fields_keys: "set (map fst (fields nd h)) = set placeholders"
  by (auto simp: fields_def placeholders_def)

lemma subst1_not_placeholder:
  assumes vals: "list_all (\<lambda>v. \<not> is_placeholder v) (map snd fs)"
    and keys: "set (map fst fs) = set placeholders"
  shows "\<not> is_placeholder (subst1 fs t)"
proof (cases t)
  case (JStr s)
  show ?thesis
  proof (cases "map_of fs s")
    case None
    then have "s \<notin> set (map fst fs)"
      by (simp add: map_of_eq_None_iff)
    with keys JStr None show ?thesis
      by (simp add: subst1_def is_placeholder_def)
  next
    case (Some v)
    then have "v \<in> set (map snd fs)"
      by (force dest: map_of_SomeD)
    with vals have "\<not> is_placeholder v"
      by (auto simp: list_all_iff)
    with JStr Some show ?thesis
      by (simp add: subst1_def)
  qed
qed (simp_all add: subst1_def is_placeholder_def)

lemma substLoop_not_placeholder:
  assumes "list_all (\<lambda>v. \<not> is_placeholder v) (map snd fs)"
    and "set (map fst fs) = set placeholders"
  shows "list_all (\<lambda>t. \<not> is_placeholder t) (substLoop fs 0 args)"
  using subst1_not_placeholder [OF assms]
  by (simp add: substLoop_survivors list_all_iff)

lemma getLaunchOptions_returned:
  assumes "selectArgs h hp m = Inr (hp2, a)"
  shows "returned (getLaunchOptions nd h hp m)
    = Inr (substLoop (fields nd h) 0 (cells hp2 a) @ pushed_tokens (h_options h)
           @ custom_tokens (h_options h))"
  using assms
  by (simp add: getLaunchOptions_def returned_def pushed_tokens_def custom_tokens_def
      cells_store cells_push alloc_def Let_def split: option.splits)

lemma selectArgs_in_place:
  assumes "d = (case m of Some x \<Rightarrow> x | None \<Rightarrow> h_version h)"
    and "\<not> str_truthy (minecraftArguments d)"
    and "arguments_game d = Some a"
    and "\<not> int (length (cells hp a)) < minArgs h"
  shows "selectArgs h hp m = Inr (hp, a)"
  using assms by (simp add: selectArgs_def gameArray_def withVanilla_def)

subsection \<open>The threshold\<close>

text \<open>
  Claim C4 says the threshold is \<open>overrides.minArgs\<close> whenever that override is set.
  The code's threshold is 5 whenever the override is set: with \<open>minArgs = 20\<close> on a
  modern version, a Forge descriptor's six tokens are not followed by the vanilla
  descriptor's, although six is below twenty.
\<close>

theorem minArgs_override_ignored:
  "minArgs minArgs20_handler = 5 \<and> spec_minArgs minArgs20_handler = 20
   \<and> returned (getLaunchOptions posix_node minArgs20_handler sample_heap (Some forge_descriptor))
       = Inr forge_game"
  by (simp add: getLaunchOptions_def selectArgs_def gameArray_def withVanilla_def minArgs_def
      isLegacy_def returned_def store_def push_def alloc_def window_tokens_def server_tokens_def
      proxy_tokens_def fields_def assetPath_def js_or_def str_truthy_def tpl_def
      substLoop_survivors subst1_def
      sample_heap_def sample_options_def sample_version_def no_overrides_def steve_def
      posix_node_def posix_join_def posix_resolve_def posix_normalize_def
      normalizeString_def vanilla_strings_def forge_game_def short_game_def demo_arg_def
      resolution_arg_def quickplay_arg_def
      spec_minArgs_def minArgs20_handler_def forge_descriptor_def)

subsection \<open>Structured entries\<close>

text \<open>
  Claim C5 says every structured entry is dropped, so that none is returned.  The entry
  that moves into the place of a spliced pair is never tested: of three structured
  entries in a row at the end of a vanilla \<open>arguments.game\<close>, the third is returned.
\<close>

theorem structured_entry_returned:
  "returned (getLaunchOptions posix_node quickplay_handler sample_heap None)
     = Inr (vanilla_substituted @ [quickplay_arg])
   \<and> typeof quickplay_arg = ''object''"
  by (simp add: getLaunchOptions_def selectArgs_def gameArray_def withVanilla_def minArgs_def
      isLegacy_def returned_def store_def push_def alloc_def window_tokens_def server_tokens_def
      proxy_tokens_def fields_def assetPath_def js_or_def str_truthy_def tpl_def
      substLoop_survivors subst1_def
      sample_heap_def sample_options_def sample_version_def no_overrides_def steve_def
      posix_node_def posix_join_def posix_resolve_def posix_normalize_def
      normalizeString_def vanilla_strings_def forge_game_def short_game_def demo_arg_def
      resolution_arg_def quickplay_arg_def
      quickplay_handler_def quickplay_version_def vanilla_substituted_def)

subsection \<open>No placeholder in the substituted tokens\<close>

lemma survivors_strings:
  "list_all (\<lambda>t. typeof t \<noteq> ''object'') xs \<Longrightarrow> survivors xs = xs"
  by (induction xs rule: survivors.induct) auto

lemma subst1_placeholder:
  assumes "is_placeholder t"
  shows "\<exists>k v. t = JStr k \<and> map_of (fields nd h) k = Some v \<and> subst1 (fields nd h) t = v"
proof -
  obtain k where t: "t = JStr k" and k: "k \<in> set placeholders"
    using assms by (cases t) (simp_all add: is_placeholder_def)
  from k have "k \<in> set (map fst (fields nd h))"
    by (simp only: fields_keys)
  then obtain v where "map_of (fields nd h) k = Some v"
    by (cases "map_of (fields nd h) k") (simp_all add: map_of_eq_None_iff)
  with t show ?thesis
    by (simp add: subst1_def)
qed

lemma subst1_other:
  assumes "\<not> is_placeholder t"
  shows "subst1 (fields nd h) t = t"
proof (cases t)
  case (JStr k)
  with assms have "k \<notin> set (map fst (fields nd h))"
    by (simp only: fields_keys) (simp add: is_placeholder_def)
  then have "map_of (fields nd h) k = None"
    by (simp add: map_of_eq_None_iff)
  with JStr show ?thesis
    by (simp add: subst1_def)
qed (simp_all add: subst1_def)

lemma fields_table:
  "map_of (fields nd h) ''${auth_access_token}'' = Some (access_token (opt_authorization (h_options h)))
   \<and> map_of (fields nd h) ''${auth_session}'' = Some (access_token (opt_authorization (h_options h)))
   \<and> map_of (fields nd h) ''${auth_player_name}'' = Some (auth_name (opt_authorization (h_options h)))
   \<and> map_of (fields nd h) ''${auth_uuid}'' = Some (auth_uuid (opt_authorization (h_options h)))
   \<and> map_of (fields nd h) ''${user_properties}'' = Some (user_properties (opt_authorization (h_options h)))
   \<and> map_of (fields nd h) ''${user_type}'' = Some (JStr ''mojang'')
   \<and> map_of (fields nd h) ''${version_name}'' = Some (JStr (version_number (h_options h)))
   \<and> map_of (fields nd h) ''${version_type}'' = Some (version_type (h_options h))
   \<and> map_of (fields nd h) ''${assets_index_name}'' = Some (JStr (assetIndex_id (h_version h)))
   \<and> map_of (fields nd h) ''${game_directory}'' = Some (JStr (opt_root (h_options h)))
   \<and> map_of (fields nd h) ''${assets_root}'' = Some (JStr (assetPath nd h))
   \<and> map_of (fields nd h) ''${game_assets}'' = Some (JStr (assetPath nd h))"
  by (simp add: fields_def)

text \<open>
  Claim C6, as amended.  The returned list is the tokens that the loop keeps of the
  selected list, in their order (all of them when none is structured), each token that
  is a recognized placeholder replaced by its value in the table and every other token
  as it was, followed by the window, server and proxy tokens and by
  \<open>customLaunchArgs\<close>, which are appended after the loop and as they are.  The table
  gives each placeholder the value the specification lists.  So when no value of the
  table is itself a placeholder, no token of the substituted part is one.
\<close>

theorem getLaunchOptions_placeholders:
  assumes "selectArgs h hp m = Inr (hp2, a)"
  shows "returned (getLaunchOptions nd h hp m)
      = Inr (map (subst1 (fields nd h)) (survivors (cells hp2 a)) @ pushed_tokens (h_options h)
             @ custom_tokens (h_options h))
    \<and> (list_all (\<lambda>t. typeof t \<noteq> ''object'') (cells hp2 a) \<longrightarrow> survivors (cells hp2 a) = cells hp2 a)
    \<and> (\<forall>t. is_placeholder t \<longrightarrow>
          (\<exists>k v. t = JStr k \<and> map_of (fields nd h) k = Some v \<and> subst1 (fields nd h) t = v))
    \<and> (\<forall>t. \<not> is_placeholder t \<longrightarrow> subst1 (fields nd h) t = t)
    \<and> (list_all (\<lambda>v. \<not> is_placeholder v) (map snd (fields nd h)) \<longrightarrow>
          list_all (\<lambda>t. \<not> is_placeholder t) (map (subst1 (fields nd h)) (survivors (cells hp2 a))))
    \<and> map_of (fields nd h) ''${auth_access_token}'' = Some (access_token (opt_authorization (h_options h)))
    \<and> map_of (fields nd h) ''${auth_session}'' = Some (access_token (opt_authorization (h_options h)))
    \<and> map_of (fields nd h) ''${auth_player_name}'' = Some (auth_name (opt_authorization (h_options h)))
    \<and> map_of (fields nd h) ''${auth_uuid}'' = Some (auth_uuid (opt_authorization (h_options h)))
    \<and> map_of (fields nd h) ''${user_properties}'' = Some (user_properties (opt_authorization (h_options h)))
    \<and> map_of (fields nd h) ''${user_type}'' = Some (JStr ''mojang'')
    \<and> map_of (fields nd h) ''${version_name}'' = Some (JStr (version_number (h_options h)))
    \<and> map_of (fields nd h) ''${version_type}'' = Some (version_type (h_options h))
    \<and> map_of (fields nd h) ''${assets_index_name}'' = Some (JStr (assetIndex_id (h_version h)))
    \<and> map_of (fields nd h) ''${game_directory}'' = Some (JStr (opt_root (h_options h)))
    \<and> map_of (fields nd h) ''${assets_root}'' = Some (JStr (assetPath nd h))
    \<and> map_of (fields nd h) ''${game_assets}'' = Some (JStr (assetPath nd h))"
proof -
  have ret: "returned (getLaunchOptions nd h hp m)
      = Inr (map (subst1 (fields nd h)) (survivors (cells hp2 a)) @ pushed_tokens (h_options h)
             @ custom_tokens (h_options h))"
    using getLaunchOptions_returned [OF assms, of nd] by (simp add: substLoop_survivors)
  have clean: "list_all (\<lambda>v. \<not> is_placeholder v) (map snd (fields nd h)) \<Longrightarrow>
      list_all (\<lambda>t. \<not> is_placeholder t) (map (subst1 (fields nd h)) (survivors (cells hp2 a)))"
    using substLoop_not_placeholder [OF _ fields_keys, of nd h "cells hp2 a"]
    by (simp add: substLoop_survivors)
  show ?thesis
    using ret clean survivors_strings [of "cells hp2 a"] subst1_placeholder [of _ nd h]
      subst1_other [of _ nd h] fields_table [of nd h]
    by blast
qed

text \<open>
  At the vanilla array of the sample store: the eighteen strings, substituted, are
  returned before the two tokens of \<open>customLaunchArgs\<close>.
\<close>

theorem getLaunchOptions_placeholders_witness:
  "selectArgs custom_args_handler sample_heap None = Inr (sample_heap, 0)
   \<and> returned (getLaunchOptions posix_node custom_args_handler sample_heap None)
       = Inr (map (subst1 (fields posix_node custom_args_handler)) (survivors (cells sample_heap 0))
              @ pushed_tokens (h_options custom_args_handler)
              @ custom_tokens (h_options custom_args_handler))
   \<and> map (subst1 (fields posix_node custom_args_handler)) (survivors (cells sample_heap 0))
       = vanilla_substituted
   \<and> list_all (\<lambda>v. \<not> is_placeholder v) (map snd (fields posix_node custom_args_handler))
   \<and> list_all (\<lambda>t. \<not> is_placeholder t)
        (map (subst1 (fields posix_node custom_args_handler)) (survivors (cells sample_heap 0)))"
proof -
  have sel: "selectArgs custom_args_handler sample_heap None = Inr (sample_heap, 0)"
    by (simp add: selectArgs_def gameArray_def withVanilla_def minArgs_def isLegacy_def
        js_or_def str_truthy_def sample_heap_def sample_options_def sample_version_def
        no_overrides_def vanilla_strings_def custom_args_handler_def)
  have vals: "list_all (\<lambda>v. \<not> is_placeholder v) (map snd (fields posix_node custom_args_handler))"
    by (simp add: fields_def is_placeholder_def placeholders_def assetPath_def isLegacy_def
        str_truthy_def tpl_def custom_args_handler_def sample_options_def sample_version_def
        no_overrides_def steve_def posix_node_def posix_join_def posix_resolve_def posix_normalize_def
      normalizeString_def)
  have out: "map (subst1 (fields posix_node custom_args_handler)) (survivors (cells sample_heap 0))
      = vanilla_substituted"
    by (simp add: subst1_def fields_def assetPath_def isLegacy_def str_truthy_def tpl_def
        custom_args_handler_def sample_heap_def sample_options_def sample_version_def
        no_overrides_def steve_def posix_node_def posix_join_def posix_resolve_def posix_normalize_def
      normalizeString_def vanilla_strings_def vanilla_substituted_def
        demo_arg_def resolution_arg_def)
  show ?thesis
    using sel vals out getLaunchOptions_placeholders [OF sel, of posix_node] by simp
qed

text \<open>
  Claim C6 as stated fails: a placeholder among \<open>customLaunchArgs\<close> is returned as it
  was given; and a player whose name is the text of a placeholder gets that text as
  the token after \<open>--username\<close>.
\<close>

theorem customLaunchArgs_placeholder_counterexample:
  "returned (getLaunchOptions posix_node custom_args_handler sample_heap None)
     = Inr (vanilla_substituted @ [JStr ''--lang'', JStr ''${auth_uuid}''])
   \<and> returned (getLaunchOptions posix_node placeholder_name_handler sample_heap None)
     = Inr (JStr ''--username'' # JStr ''${auth_uuid}'' # drop 2 vanilla_substituted)
   \<and> is_placeholder (JStr ''${auth_uuid}'')"
  by (simp add: getLaunchOptions_def selectArgs_def gameArray_def withVanilla_def minArgs_def
      isLegacy_def returned_def store_def push_def alloc_def window_tokens_def server_tokens_def
      proxy_tokens_def fields_def assetPath_def js_or_def str_truthy_def tpl_def
      substLoop_survivors subst1_def
      sample_heap_def sample_options_def sample_version_def no_overrides_def steve_def
      posix_node_def posix_join_def posix_resolve_def posix_normalize_def
      normalizeString_def vanilla_strings_def forge_game_def short_game_def demo_arg_def
      resolution_arg_def quickplay_arg_def
      custom_args_handler_def placeholder_name_handler_def vanilla_substituted_def
      is_placeholder_def placeholders_def)

subsection \<open>The descriptor's array is updated in place\<close>

lemma getLaunchOptions_mutates:
  assumes "d = (case m of Some x \<Rightarrow> x | None \<Rightarrow> h_version h)"
    and "\<not> str_truthy (minecraftArguments d)"
    and "arguments_game d = Some a"
    and "a < next_free hp"
    and "\<not> int (length (cells hp a)) < minArgs h"
  shows "\<exists>hp' r. getLaunchOptions nd h hp m = Inr (hp', r)
      \<and> cells hp' a = substLoop (fields nd h) 0 (cells hp a) @ pushed_tokens (h_options h)"
proof -
  have sel: "selectArgs h hp m = Inr (hp, a)"
    using assms(1,2,3,5) by (rule selectArgs_in_place)
  show ?thesis
  proof (cases "customLaunchArgs (h_options h)")
    case None
    with sel show ?thesis
      by (simp add: getLaunchOptions_def pushed_tokens_def cells_store cells_push Let_def)
  next
    case (Some extra)
    with sel assms(4) show ?thesis
      by (simp add: getLaunchOptions_def pushed_tokens_def cells_store cells_push
          next_free_store next_free_push alloc_def Let_def)
  qed
qed

lemma withVanilla_short:
  assumes "int (length (cells hp a)) < minArgs h" and "a < next_free hp"
    and "withVanilla h hp a = Inr (hp', r)"
  shows "cells hp' a = cells hp a \<and> r \<noteq> a \<and> a < next_free hp'"
  using assms
  by (auto simp: withVanilla_def gameArray_def alloc_def split: if_splits option.splits sum.splits)

lemma getLaunchOptions_copies:
  assumes "d = (case m of Some x \<Rightarrow> x | None \<Rightarrow> h_version h)"
    and "\<not> str_truthy (minecraftArguments d)"
    and "arguments_game d = Some a"
    and "a < next_free hp"
    and "int (length (cells hp a)) < minArgs h"
    and "str_truthy (minecraftArguments (h_version h)) \<or> arguments_game (h_version h) \<noteq> None"
  shows "\<exists>hp' r. getLaunchOptions nd h hp m = Inr (hp', r) \<and> cells hp' a = cells hp a"
proof -
  have ga: "gameArray hp d = Inr (hp, a)"
    using assms(2,3) by (simp add: gameArray_def)
  have "\<exists>p. withVanilla h hp a = Inr p"
    using assms(5,6)
    by (cases "str_truthy (minecraftArguments (h_version h))";
        cases "arguments_game (h_version h)")
       (simp_all add: withVanilla_def gameArray_def alloc_def)
  then obtain hp2 r2 where wv: "withVanilla h hp a = Inr (hp2, r2)"
    by (metis surj_pair)
  have fr: "cells hp2 a = cells hp a" "r2 \<noteq> a" "a < next_free hp2"
    using withVanilla_short [OF assms(5) assms(4) wv] by simp_all
  have sel: "selectArgs h hp m = Inr (hp2, r2)"
    using assms(1) ga wv by (simp add: selectArgs_def)
  show ?thesis
  proof (cases "customLaunchArgs (h_options h)")
    case None
    with sel fr show ?thesis
      by (simp add: getLaunchOptions_def cells_store cells_push Let_def)
  next
    case (Some extra)
    with sel fr show ?thesis
      by (simp add: getLaunchOptions_def cells_store cells_push next_free_store next_free_push
          alloc_def Let_def)
  qed
qed

text \<open>
  Claim C10, as amended.  Let the descriptor at hand supply \<open>arguments.game\<close>, an
  array of the store, and let the vanilla descriptor have game arguments.  When the
  array is not shorter than the threshold, the call works on the array itself:
  afterwards it holds the loop's output followed by the pushed window, server and
  proxy tokens.  When it is shorter, \<open>concat\<close> has built a new array and the
  descriptor's array is as it was.  Either way the descriptor still names that array,
  so a second call starts from what the first one left in it.
\<close>

theorem getLaunchOptions_in_place:
  assumes "d = (case m of Some x \<Rightarrow> x | None \<Rightarrow> h_version h)"
    and "\<not> str_truthy (minecraftArguments d)"
    and "arguments_game d = Some a"
    and "a < next_free hp"
    and "str_truthy (minecraftArguments (h_version h)) \<or> arguments_game (h_version h) \<noteq> None"
  shows "\<exists>hp' r. getLaunchOptions nd h hp m = Inr (hp', r)
      \<and> cells hp' a =
          (if int (length (cells hp a)) < minArgs h then cells hp a
           else substLoop (fields nd h) 0 (cells hp a) @ pushed_tokens (h_options h))
      \<and> gameArray hp' d = Inr (hp', a)"
proof -
  have arr: "\<And>hp'. gameArray hp' d = Inr (hp', a)"
    using assms(2,3) by (simp add: gameArray_def)
  show ?thesis
  proof (cases "int (length (cells hp a)) < minArgs h")
    case True
    with getLaunchOptions_copies [OF assms(1,2,3,4) True assms(5), of nd] arr
    show ?thesis by auto
  next
    case False
    with getLaunchOptions_mutates [OF assms(1,2,3,4) False, of nd] arr
    show ?thesis by auto
  qed
qed

text \<open>
  Two instances: the vanilla descriptor's own array of twenty tokens, updated in place
  and extended by the window tokens; and a custom descriptor's array of four tokens,
  left as it was.
\<close>

theorem getLaunchOptions_in_place_witness:
  "sample_version = (case None of Some x \<Rightarrow> x | None \<Rightarrow> h_version window_handler)
   \<and> \<not> str_truthy (minecraftArguments sample_version)
   \<and> arguments_game sample_version = Some 0
   \<and> 0 < next_free sample_heap
   \<and> arguments_game (h_version window_handler) \<noteq> None
   \<and> \<not> int (length (cells sample_heap 0)) < minArgs window_handler
   \<and> (\<exists>hp' r. getLaunchOptions posix_node window_handler sample_heap None = Inr (hp', r)
        \<and> cells hp' 0 = substLoop (fields posix_node window_handler) 0 (cells sample_heap 0)
                          @ pushed_tokens (h_options window_handler)
        \<and> gameArray hp' sample_version = Inr (hp', 0))
   \<and> short_descriptor
       = (case Some short_descriptor of Some x \<Rightarrow> x | None \<Rightarrow> h_version (on_platform ''linux''))
   \<and> \<not> str_truthy (minecraftArguments short_descriptor)
   \<and> arguments_game short_descriptor = Some 2
   \<and> 2 < next_free sample_heap
   \<and> arguments_game (h_version (on_platform ''linux'')) \<noteq> None
   \<and> int (length (cells sample_heap 2)) < minArgs (on_platform ''linux'')
   \<and> (\<exists>hp' r. getLaunchOptions posix_node (on_platform ''linux'') sample_heap (Some short_descriptor)
                  = Inr (hp', r)
        \<and> cells hp' 2 = cells sample_heap 2
        \<and> gameArray hp' short_descriptor = Inr (hp', 2))"
proof -
  have h1: "sample_version = (case None of Some x \<Rightarrow> x | None \<Rightarrow> h_version window_handler)"
    by (simp add: window_handler_def)
  have h2: "\<not> str_truthy (minecraftArguments sample_version)"
    by (simp add: sample_version_def str_truthy_def)
  have h3: "arguments_game sample_version = Some 0"
    by (simp add: sample_version_def)
  have h4: "0 < next_free sample_heap"
    by (simp add: sample_heap_def)
  have h5: "arguments_game (h_version window_handler) \<noteq> None"
    by (simp add: window_handler_def sample_version_def)
  have h6: "\<not> int (length (cells sample_heap 0)) < minArgs window_handler"
    by (simp add: minArgs_def isLegacy_def js_or_def window_handler_def
        sample_heap_def sample_options_def sample_version_def no_overrides_def steve_def
        posix_node_def posix_join_def posix_resolve_def posix_normalize_def
      normalizeString_def vanilla_strings_def forge_game_def short_game_def demo_arg_def
        resolution_arg_def quickplay_arg_def)
  have k1: "short_descriptor
      = (case Some short_descriptor of Some x \<Rightarrow> x | None \<Rightarrow> h_version (on_platform ''linux''))"
    by simp
  have k2: "\<not> str_truthy (minecraftArguments short_descriptor)"
    by (simp add: short_descriptor_def forge_descriptor_def str_truthy_def)
  have k3: "arguments_game short_descriptor = Some 2"
    by (simp add: short_descriptor_def)
  have k4: "2 < next_free sample_heap"
    by (simp add: sample_heap_def)
  have k5: "arguments_game (h_version (on_platform ''linux'')) \<noteq> None"
    by (simp add: on_platform_def sample_version_def)
  have k6: "int (length (cells sample_heap 2)) < minArgs (on_platform ''linux'')"
    by (simp add: minArgs_def isLegacy_def js_or_def on_platform_def
        sample_heap_def sample_options_def sample_version_def no_overrides_def steve_def
        posix_node_def posix_join_def posix_resolve_def posix_normalize_def
      normalizeString_def vanilla_strings_def forge_game_def short_game_def demo_arg_def
        resolution_arg_def quickplay_arg_def)
  have in_place: "\<exists>hp' r. getLaunchOptions posix_node window_handler sample_heap None = Inr (hp', r)
      \<and> cells hp' 0 = substLoop (fields posix_node window_handler) 0 (cells sample_heap 0)
                        @ pushed_tokens (h_options window_handler)
      \<and> gameArray hp' sample_version = Inr (hp', 0)"
    using getLaunchOptions_in_place [OF h1 h2 h3 h4 disjI2 [OF h5], of posix_node] h6 by simp
  have copied: "\<exists>hp' r. getLaunchOptions posix_node (on_platform ''linux'') sample_heap (Some short_descriptor)
                  = Inr (hp', r)
      \<and> cells hp' 2 = cells sample_heap 2
      \<and> gameArray hp' short_descriptor = Inr (hp', 2)"
    using getLaunchOptions_in_place [OF k1 k2 k3 k4 disjI2 [OF k5], of posix_node] k6 by simp
  show ?thesis
    using h1 h2 h3 h4 h5 h6 k1 k2 k3 k4 k5 k6 in_place copied by blast
qed

text \<open>
  Claim C10 as stated fails: a descriptor whose \<open>arguments.game\<close> is shorter than the
  threshold keeps its array as it was, since \<open>concat\<close> has put the tokens into a new
  array before the loop runs.
\<close>

theorem short_array_untouched_counterexample:
  "array_after 2 (getLaunchOptions posix_node (on_platform ''linux'') sample_heap (Some short_descriptor))
     = Inr short_game
   \<and> returned (getLaunchOptions posix_node (on_platform ''linux'') sample_heap (Some short_descriptor))
       = Inr ([JStr ''--username'', JStr ''Steve''] @ vanilla_substituted)"
  by (simp add: getLaunchOptions_def selectArgs_def gameArray_def withVanilla_def minArgs_def
      isLegacy_def returned_def store_def push_def alloc_def window_tokens_def server_tokens_def
      proxy_tokens_def fields_def assetPath_def js_or_def str_truthy_def tpl_def
      substLoop_survivors subst1_def
      sample_heap_def sample_options_def sample_version_def no_overrides_def steve_def
      posix_node_def posix_join_def posix_resolve_def posix_normalize_def
      normalizeString_def vanilla_strings_def forge_game_def short_game_def demo_arg_def
      resolution_arg_def quickplay_arg_def
      array_after_def short_descriptor_def forge_descriptor_def on_platform_def
      vanilla_substituted_def)

section \<open>Properties of the materializers\<close>

subsection \<open>Natives\<close>

text \<open>The guard of \<open>getNatives\<close> holds in every world: the phase is never skipped.\<close>

lemma nativesGuard_always: "nativesGuard w dir"
  by (simp add: nativesGuard_def await_value_def promise_length_def)

text \<open>
  Claim C2 says the natives phase is skipped when the directory exists and is not
  empty.  In such a world the code makes the directory, downloads the archive, checks
  its hash, extracts it and deletes it again.
\<close>

theorem natives_fetched_again:
  "w_exists second_run (nativeDirectory posix_node natives_handler)
   \<and> w_readdir second_run (nativeDirectory posix_node natives_handler) = [''liblwjgl64.so'']
   \<and> getNatives posix_node second_run natives_handler
       = ([Mkdir ''/tmp/mc/natives/1.19.2'',
           Download ''https://libraries.minecraft.net/org/lwjgl/lwjgl/lwjgl-platform/2.9.4-nightly-20150209/lwjgl-platform-2.9.4-nightly-20150209-natives-linux.jar''
             ''/tmp/mc/natives/1.19.2'' ''lwjgl-platform-2.9.4-nightly-20150209-natives-linux.jar'',
           CheckSum ''931074f46c795d2f7b30ed6395df5715cfd7675b''
             ''/tmp/mc/natives/1.19.2/lwjgl-platform-2.9.4-nightly-20150209-natives-linux.jar'',
           Extract ''/tmp/mc/natives/1.19.2/lwjgl-platform-2.9.4-nightly-20150209-natives-linux.jar''
             ''/tmp/mc/natives/1.19.2'',
           Rm ''/tmp/mc/natives/1.19.2/lwjgl-platform-2.9.4-nightly-20150209-natives-linux.jar''],
          Inr ''/tmp/mc/natives/1.19.2'')"
  by (simp add: getNatives_def nativeDirectory_def nativesGuard_always fetchNative_def
      nativeOf_def parseRule_def second_run_def natives_handler_def lwjgl_natives_def sample_options_def sample_version_def no_overrides_def steve_def posix_node_def posix_join_def posix_resolve_def posix_normalize_def
      normalizeString_def
      str_truthy_def tpl_def getOS_def Let_def)

subsection \<open>The version descriptor\<close>

text \<open>
  Claim C9 says a second run fetches nothing, and that \<open>getVersion\<close> returns the
  descriptor on disk without a request for the manifest.  With the descriptor on disk
  the promise is resolved with it, and the manifest and the descriptor's URL are
  requested all the same.
\<close>

theorem manifest_requested_again:
  "w_readJson second_run (versionJsonPath posix_node natives_handler) = Some sample_version
   \<and> getVersion posix_node second_run natives_handler
       = ([ReadFile ''/tmp/mc/versions/1.19.2/1.19.2.json'',
           HttpGet ''https://launchermeta.mojang.com/mc/game/version_manifest.json'',
           HttpGet ''https://piston-meta.mojang.com/v1/packages/1.19.2.json''],
          Resolved sample_version)
   \<and> fetches (fst (getVersion posix_node second_run natives_handler))
       = [HttpGet ''https://launchermeta.mojang.com/mc/game/version_manifest.json'',
          HttpGet ''https://piston-meta.mojang.com/v1/packages/1.19.2.json'']"
  by (simp add: getVersion_def fromManifest_def manifestUrl_def versionJsonPath_def resolve_def
      fetches_def second_run_def natives_handler_def sample_options_def sample_version_def no_overrides_def steve_def posix_node_def posix_join_def posix_resolve_def posix_normalize_def
      normalizeString_def
      str_truthy_def tpl_def getOS_def Let_def)

subsection \<open>ForgeWrapper\<close>

text \<open>
  Claim C3 says that for an installer jar ForgeWrapper is run and the \<open>version.json\<close>
  it leaves is used as the custom descriptor.  For an archive that holds
  \<open>install_profile.json\<close>, no process is started: \<open>custom\<close> becomes the function
  that \<open>getForgedWrapped\<close> returns, and \<open>getClasses\<close> throws on it.
\<close>

theorem forgeWrapper_not_run:
  "w_zipEntry first_run ''/tmp/forge-installer.jar'' ''install_profile.json''
   \<and> forgeStage posix_node first_run (forge_handler ''/tmp/forge-installer.jar'')
       = ([Mkdir ''/tmp/mc/forge''],
          Inr (ForgeFalse, getForgedWrapped posix_node (forge_handler ''/tmp/forge-installer.jar'')))
   \<and> execs (fst (forgeStage posix_node first_run (forge_handler ''/tmp/forge-installer.jar''))) = []
   \<and> snd (getClasses posix_node first_run (forge_handler ''/tmp/forge-installer.jar'')
             (getForgedWrapped posix_node (forge_handler ''/tmp/forge-installer.jar'')))
       = Inl TypeError"
  by (simp add: forgeStage_def getForgeDependenciesLegacy_def getForgedWrapped_def await_custom_def
      custom_truthy_def execs_def getClasses_def customClasses_def first_run_def forge_handler_def
      sample_options_def sample_version_def no_overrides_def steve_def posix_node_def posix_join_def posix_resolve_def posix_normalize_def
      normalizeString_def
      str_truthy_def tpl_def getOS_def Let_def)

subsection \<open>Deduplication\<close>

lemma cleanUp_loop_snoc:
  "cleanUp_loop acc (xs @ [x])
   = (if x \<in> set (cleanUp_loop acc xs) then cleanUp_loop acc xs else cleanUp_loop acc xs @ [x])"
  by (induction xs arbitrary: acc) auto

lemma set_cleanUp_loop: "set (cleanUp_loop acc xs) = set acc \<union> set xs"
  by (induction xs arbitrary: acc) auto

lemma distinct_cleanUp_loop: "distinct acc \<Longrightarrow> distinct (cleanUp_loop acc xs)"
  by (induction xs arbitrary: acc) auto

lemma cleanUp_first_occurrences: "cleanUp xs = rev (remdups (rev xs))"
proof (induction xs rule: rev_induct)
  case Nil
  show ?case by (simp add: cleanUp_def)
next
  case (snoc x xs)
  have "set (cleanUp xs) = set xs"
    by (simp add: cleanUp_def set_cleanUp_loop)
  with snoc show ?case
    by (simp add: cleanUp_def cleanUp_loop_snoc)
qed

text \<open>
  Claim C7, as amended.  \<open>cleanUp\<close> returns the elements of its input, each once, in
  the order of their first occurrences; \<open>launch\<close> applies it to the paths that
  \<open>getClasses\<close> returns, so that part of the classpath has no duplicates when
  \<open>overrides.classes\<close> is not given.
\<close>

theorem cleanUp_deduplicates:
  "distinct (cleanUp xs) \<and> set (cleanUp xs) = set xs \<and> cleanUp xs = rev (remdups (rev xs))
   \<and> (ov_classes (opt_overrides (h_options h)) = None
        \<longrightarrow> launchClasses h xs = cleanUp xs \<and> distinct (launchClasses h xs))"
  using cleanUp_first_occurrences [of xs] distinct_cleanUp_loop [of "[]" xs]
  by (simp add: cleanUp_def set_cleanUp_loop launchClasses_def)

theorem cleanUp_deduplicates_witness:
  "ov_classes (opt_overrides (h_options (on_platform ''linux''))) = None
   \<and> distinct (cleanUp [''a.jar'', ''b.jar'', ''a.jar''])
   \<and> set (cleanUp [''a.jar'', ''b.jar'', ''a.jar'']) = set [''a.jar'', ''b.jar'', ''a.jar'']
   \<and> cleanUp [''a.jar'', ''b.jar'', ''a.jar''] = rev (remdups (rev [''a.jar'', ''b.jar'', ''a.jar'']))
   \<and> launchClasses (on_platform ''linux'') [''a.jar'', ''b.jar'', ''a.jar'']
       = cleanUp [''a.jar'', ''b.jar'', ''a.jar'']
   \<and> distinct (launchClasses (on_platform ''linux'') [''a.jar'', ''b.jar'', ''a.jar''])"
proof -
  have h: "ov_classes (opt_overrides (h_options (on_platform ''linux''))) = None"
    by (simp add: on_platform_def sample_options_def no_overrides_def)
  show ?thesis
    using h cleanUp_deduplicates [of "[''a.jar'', ''b.jar'', ''a.jar'']" "on_platform ''linux''"]
    by blast
qed

text \<open>
  Claim C7 as stated fails for the Forge composition: a library that the Forge
  descriptor and the vanilla descriptor both list stands twice in the string after
  \<open>-cp\<close>, once among the Forge paths and once among the classes.  And a list given
  as \<open>overrides.classes\<close> is taken as it is.
\<close>

theorem forge_classpath_counterexample:
  "snd (getForgeDependenciesLegacy posix_node first_run (forge_handler ''/tmp/forge-universal.jar''))
     = Inr (ForgeDeps \<lparr>paths = [jopt_path], forge = legacy_forge_descriptor\<rparr>)
   \<and> snd (getClasses posix_node first_run (forge_handler ''/tmp/forge-universal.jar'') CustomNull)
       = Inr [jopt_path]
   \<and> js_split CHR '':''
        (classPath posix_node first_run (forge_handler ''/tmp/forge-universal.jar'')
           (ForgeDeps \<lparr>paths = [jopt_path], forge = legacy_forge_descriptor\<rparr>)
           (launchClasses (forge_handler ''/tmp/forge-universal.jar'') [jopt_path]))
       = [''/tmp/forge-universal.jar'', jopt_path, jopt_path, ''/tmp/mc/versions/1.12.2/1.12.2.jar'']
   \<and> \<not> distinct [''/tmp/forge-universal.jar'', jopt_path, jopt_path,
                    ''/tmp/mc/versions/1.12.2/1.12.2.jar'']
   \<and> launchClasses classes_override_handler [] = [''/opt/a.jar'', ''/opt/a.jar'']"
  by (simp add: classes_override_handler_def getForgeDependenciesLegacy_def forgeLibraries_def forgeLibrary_def downloadToDirectory_def
      pushOrder_def forgeJson_def libraryDirectory_def
      coordinateDir_def nth_opt_def dots_to_slashes_def getClasses_def customClasses_def
      parsedLibrary_def parseRule_def libraryStep_def libraryDownloads_def libraryPath_def
      libraryTarget_def artifactOf_def popString_def classPath_def launchClasses_def cleanUp_def
      separator_def mcPath_def first_run_def forge_handler_def legacy_version_def
      legacy_forge_descriptor_def jopt_vanilla_def jopt_forge_def forge_itself_def jopt_path_def
      sample_options_def sample_version_def no_overrides_def steve_def posix_node_def posix_join_def posix_resolve_def posix_normalize_def
      normalizeString_def
      str_truthy_def tpl_def getOS_def Let_def)

subsection \<open>Libraries with nothing to download\<close>

lemma set_pushOrder: "set (pushOrder steps) = (\<Union>s \<in> set steps. set (snd s))"
  by (auto simp: pushOrder_def)

lemma downloadToDirectory_path:
  "Some l \<in> set libs \<Longrightarrow>
   libraryPath nd directory l \<in> set (snd (downloadToDirectory nd w directory libs))"
  by (force simp: downloadToDirectory_def Let_def set_pushOrder libraryStep_def)

text \<open>
  Claim C8, as amended.  For a library with neither \<open>downloads.artifact\<close> nor \<open>url\<close>
  no download is attempted, and its path is in the list returned all the same.
\<close>

theorem library_without_source:
  assumes "Some l \<in> set libs" and "\<not> str_truthy (lib_url l)" and "artifactOf l = None"
  shows "libraryDownloads nd w directory l = []
     \<and> libraryPath nd directory l \<in> set (snd (downloadToDirectory nd w directory libs))"
  using assms downloadToDirectory_path [of l libs nd directory w]
  by (simp add: libraryDownloads_def split: prod.splits)

theorem library_without_source_witness:
  "Some optifine \<in> set [Some optifine] \<and> \<not> str_truthy (lib_url optifine)
   \<and> artifactOf optifine = None
   \<and> libraryDownloads posix_node first_run ''/tmp/mc/libraries'' optifine = []
   \<and> libraryPath posix_node ''/tmp/mc/libraries'' optifine
       \<in> set (snd (downloadToDirectory posix_node first_run ''/tmp/mc/libraries'' [Some optifine]))"
proof -
  have h1: "Some optifine \<in> set [Some optifine]" by simp
  have h2: "\<not> str_truthy (lib_url optifine)" by (simp add: optifine_def str_truthy_def)
  have h3: "artifactOf optifine = None" by (simp add: optifine_def artifactOf_def)
  show ?thesis
    using h1 h2 h3 library_without_source [OF h1 h2 h3] by simp
qed

text \<open>
  Claim C8 as stated fails: the library that gives only its name is in the list
  returned, though nothing was downloaded for it and no file of it exists.
\<close>

theorem library_without_source_counterexample:
  "downloadToDirectory posix_node first_run ''/tmp/mc/libraries'' [Some optifine]
     = ([], [''/tmp/mc/libraries/optifine/OptiFine/1.12.2_HD_U_E3/OptiFine-1.12.2_HD_U_E3.jar''])"
  by (simp add: downloadToDirectory_def pushOrder_def libraryStep_def libraryDownloads_def libraryPath_def libraryTarget_def
      artifactOf_def coordinateDir_def nth_opt_def dots_to_slashes_def optifine_def first_run_def
      sample_options_def sample_version_def no_overrides_def steve_def posix_node_def posix_join_def posix_resolve_def posix_normalize_def
      normalizeString_def
      str_truthy_def tpl_def getOS_def Let_def)

end
